theory Spec2Isabelle
  imports Complex_Main "HOL-Library.AList"
begin

section \<open>Python values\<close>

text \<open>
  The tracker passes JSON-shaped Python values between its stages: the collectors build
  dicts and lists from upstream responses, \<open>analyzer.py\<close> reads them with \<open>.get\<close>,
  subscripts, slices and f-strings, and \<open>main.py\<close> assembles and projects them. The values
  are modelled as a datatype, every Python exception as an error value, and every source
  function as a function into \<open>pyerr + 'a\<close> (\<open>Inl\<close> is the raised exception).

  A dict is the list of its items in insertion order; the keys of a Python dict are
  distinct, and lookup takes the binding \<open>map_of\<close> finds. A string is a list of characters,
  one \<open>char\<close> per element of the Python string; the two characters of the source
  outside ASCII (a star and a dash in fixed texts) are kept as the bytes of their UTF-8
  encoding. A float is an IEEE binary64 value: a sign bit and a rational magnitude for the
  finite ones (so that \<open>-0.0\<close> exists), the two infinities, and NaN.
\<close>

datatype pyerr =
    KeyError | TypeError | AttributeError | ValueError | IndexError
  | ZeroDivisionError | OverflowError | APIError | OSError

datatype pyfloat = Finite bool rat | Infinity bool | NaN

datatype json =
    JNull
  | JBool bool
  | JInt int
  | JFloat pyfloat
  | JStr string
  | JList "json list"
  | JObj "(string \<times> json) list"

subsection \<open>Sequencing computations that may raise\<close>

definition and_then :: "pyerr + 'a \<Rightarrow> ('a \<Rightarrow> pyerr + 'b) \<Rightarrow> pyerr + 'b" where
  "and_then m f = (case m of Inl e \<Rightarrow> Inl e | Inr x \<Rightarrow> f x)"

text \<open>A loop that appends one result per element and stops at the first exception.\<close>

fun map_err :: "('a \<Rightarrow> pyerr + 'b) \<Rightarrow> 'a list \<Rightarrow> pyerr + 'b list" where
  "map_err f [] = Inr []"
| "map_err f (x # xs) = and_then (f x) (\<lambda>y. and_then (map_err f xs) (\<lambda>ys. Inr (y # ys)))"

text \<open>
  An f-string evaluates and formats its fields from left to right; the first field that
  raises aborts the whole string.
\<close>

fun fstring :: "(pyerr + string) list \<Rightarrow> pyerr + string" where
  "fstring [] = Inr []"
| "fstring (p # ps) = and_then p (\<lambda>s. and_then (fstring ps) (\<lambda>t. Inr (s @ t)))"

subsection \<open>Truth value, lookup, subscript, slice, iteration, membership\<close>

fun truthy :: "json \<Rightarrow> bool" where
  "truthy JNull = False"
| "truthy (JBool b) = b"
| "truthy (JInt i) = (i \<noteq> 0)"
| "truthy (JFloat (Finite s m)) = (m \<noteq> 0)"
| "truthy (JFloat (Infinity s)) = True"
| "truthy (JFloat NaN) = True"
| "truthy (JStr s) = (s \<noteq> [])"
| "truthy (JList xs) = (xs \<noteq> [])"
| "truthy (JObj kvs) = (kvs \<noteq> [])"

text \<open>\<open>d.get(k, default)\<close>: only a dict has the method.\<close>

fun dict_get :: "json \<Rightarrow> string \<Rightarrow> json \<Rightarrow> pyerr + json" where
  "dict_get (JObj kvs) k dflt = Inr (case map_of kvs k of Some v \<Rightarrow> v | None \<Rightarrow> dflt)"
| "dict_get _ k dflt = Inl AttributeError"

text \<open>\<open>d['k']\<close> with a string key: a dict without the key raises KeyError, every other value
  raises TypeError (a list or a string wants an integer index, the rest are not
  subscriptable).\<close>

fun subscript_key :: "json \<Rightarrow> string \<Rightarrow> pyerr + json" where
  "subscript_key (JObj kvs) k = (case map_of kvs k of Some v \<Rightarrow> Inr v | None \<Rightarrow> Inl KeyError)"
| "subscript_key _ k = Inl TypeError"

text \<open>\<open>x[:n]\<close>: lists and strings are sliced; a dict rejects the slice as a key (TypeError
  before Python 3.12, KeyError since; the model says TypeError); the rest are not
  subscriptable.\<close>

fun slice_to :: "nat \<Rightarrow> json \<Rightarrow> pyerr + json" where
  "slice_to n (JList xs) = Inr (JList (take n xs))"
| "slice_to n (JStr s) = Inr (JStr (take n s))"
| "slice_to n _ = Inl TypeError"

text \<open>\<open>x[-n:]\<close>\<close>

fun slice_last :: "nat \<Rightarrow> json \<Rightarrow> pyerr + json" where
  "slice_last n (JList xs) = Inr (JList (drop (length xs - n) xs))"
| "slice_last n (JStr s) = Inr (JStr (drop (length s - n) s))"
| "slice_last n _ = Inl TypeError"

text \<open>\<open>x[i]\<close> with an integer index; a negative index counts from the end.\<close>

definition list_index :: "'a list \<Rightarrow> int \<Rightarrow> pyerr + 'a" where
  "list_index xs i =
     (if 0 \<le> i \<and> i < int (length xs) then Inr (xs ! nat i)
      else if i < 0 \<and> - i \<le> int (length xs) then Inr (xs ! nat (int (length xs) + i))
      else Inl IndexError)"

fun subscript_int :: "json \<Rightarrow> int \<Rightarrow> pyerr + json" where
  "subscript_int (JList xs) i = list_index xs i"
| "subscript_int (JStr s) i = and_then (list_index s i) (\<lambda>c. Inr (JStr [c]))"
| "subscript_int (JObj kvs) i = Inl KeyError"
| "subscript_int _ i = Inl TypeError"

fun py_len :: "json \<Rightarrow> pyerr + nat" where
  "py_len (JList xs) = Inr (length xs)"
| "py_len (JStr s) = Inr (length s)"
| "py_len (JObj kvs) = Inr (length kvs)"
| "py_len _ = Inl TypeError"

text \<open>\<open>for x in v\<close>: a list yields its elements, a string its characters, a dict its keys.\<close>

fun iterate :: "json \<Rightarrow> pyerr + json list" where
  "iterate (JList xs) = Inr xs"
| "iterate (JStr s) = Inr (map (\<lambda>c. JStr [c]) s)"
| "iterate (JObj kvs) = Inr (map (\<lambda>kv. JStr (fst kv)) kvs)"
| "iterate _ = Inl TypeError"

fun is_substring :: "string \<Rightarrow> string \<Rightarrow> bool" where
  "is_substring sub [] = (sub = [])"
| "is_substring sub (c # cs) = (take (length sub) (c # cs) = sub \<or> is_substring sub cs)"

text \<open>\<open>"k" in v\<close>: a key of a dict, an element of a list, a substring of a string.\<close>

fun contains_str :: "string \<Rightarrow> json \<Rightarrow> pyerr + bool" where
  "contains_str k (JObj kvs) = Inr (map_of kvs k \<noteq> None)"
| "contains_str k (JList xs) = Inr (JStr k \<in> set xs)"
| "contains_str k (JStr s) = Inr (is_substring k s)"
| "contains_str k _ = Inl TypeError"

text \<open>\<open>d[k] = v\<close> on a dict keeps the position of an existing key and appends a new one.\<close>

fun set_item :: "json \<Rightarrow> string \<Rightarrow> json \<Rightarrow> pyerr + json" where
  "set_item (JObj kvs) k v = Inr (JObj (AList.update k v kvs))"
| "set_item _ k v = Inl TypeError"

section \<open>Numbers\<close>

subsection \<open>Rounding to binary64\<close>

text \<open>
  Python floats are IEEE binary64 and every float operation rounds its exact result to the
  nearest representable value, ties to even. \<open>to_binary64\<close> does that for a non-negative
  rational: 53 significant bits in the binade \<open>e\<close> of the value, the fixed quantum
  \<open>2 ^ -1074\<close> below the normal range, and no result (overflow) when the rounded value
  reaches \<open>2 ^ 1024\<close>, which is when \<open>e\<close> is at least 1024 or the significand rounds up
  to \<open>2 ^ 53\<close> at \<open>e = 1023\<close>.
\<close>

function bit_length :: "int \<Rightarrow> int" where
  "bit_length k = (if k \<le> 0 then 0 else 1 + bit_length (k div 2))"
  by pat_completeness auto
termination
  by (relation "measure nat") auto

declare bit_length.simps [simp del]

definition pow2 :: "int \<Rightarrow> rat" where
  "pow2 k = (if 0 \<le> k then 2 ^ nat k else 1 / 2 ^ nat (- k))"

definition round_half_even :: "rat \<Rightarrow> int" where
  "round_half_even x =
     (let f = \<lfloor>x\<rfloor>; d = x - of_int f
      in if d < 1 / 2 then f else if 1 / 2 < d then f + 1 else if even f then f else f + 1)"

text \<open>The exponent \<open>e\<close> with \<open>2 ^ e \<le> x < 2 ^ (e + 1)\<close>, for positive \<open>x\<close>.\<close>

definition binade :: "rat \<Rightarrow> int" where
  "binade x =
     (let e0 = bit_length (fst (quotient_of x)) - bit_length (snd (quotient_of x))
      in if pow2 e0 \<le> x then e0 else e0 - 1)"

definition to_binary64 :: "rat \<Rightarrow> rat option" where
  "to_binary64 x =
     (if x = 0 then Some 0
      else let e = max (binade x) (- 1022);
               q = pow2 (e - 52);
               m = round_half_even (x / q)
           in if 1024 \<le> e \<or> (e = 1023 \<and> m = 2 ^ 53) then None else Some (of_int m * q))"

subsection \<open>Float arithmetic\<close>

definition signed :: "bool \<Rightarrow> rat \<Rightarrow> rat" where
  "signed s m = (if s then - m else m)"

text \<open>The float nearest to a non-zero exact result; an overflowing float operation gives
  an infinity.\<close>

definition float_of_rat :: "rat \<Rightarrow> pyfloat" where
  "float_of_rat v =
     (case to_binary64 \<bar>v\<bar> of None \<Rightarrow> Infinity (v < 0) | Some m \<Rightarrow> Finite (v < 0) m)"

fun float_neg :: "pyfloat \<Rightarrow> pyfloat" where
  "float_neg (Finite s m) = Finite (\<not> s) m"
| "float_neg (Infinity s) = Infinity (\<not> s)"
| "float_neg NaN = NaN"

fun float_add :: "pyfloat \<Rightarrow> pyfloat \<Rightarrow> pyfloat" where
  "float_add NaN y = NaN"
| "float_add x NaN = NaN"
| "float_add (Infinity s) (Infinity t) = (if s = t then Infinity s else NaN)"
| "float_add (Infinity s) (Finite t n) = Infinity s"
| "float_add (Finite s m) (Infinity t) = Infinity t"
| "float_add (Finite s m) (Finite t n) =
     (let v = signed s m + signed t n
      in if v = 0 then Finite (s \<and> t \<and> m = 0 \<and> n = 0) 0 else float_of_rat v)"

definition float_sub :: "pyfloat \<Rightarrow> pyfloat \<Rightarrow> pyfloat" where
  "float_sub x y = float_add x (float_neg y)"

fun float_mul :: "pyfloat \<Rightarrow> pyfloat \<Rightarrow> pyfloat" where
  "float_mul NaN y = NaN"
| "float_mul x NaN = NaN"
| "float_mul (Infinity s) (Infinity t) = Infinity (s \<noteq> t)"
| "float_mul (Infinity s) (Finite t n) = (if n = 0 then NaN else Infinity (s \<noteq> t))"
| "float_mul (Finite s m) (Infinity t) = (if m = 0 then NaN else Infinity (s \<noteq> t))"
| "float_mul (Finite s m) (Finite t n) =
     (case to_binary64 (m * n) of None \<Rightarrow> Infinity (s \<noteq> t) | Some r \<Rightarrow> Finite (s \<noteq> t) r)"

text \<open>Float division by a float that is not zero (Python raises before dividing by zero).\<close>

fun float_div :: "pyfloat \<Rightarrow> pyfloat \<Rightarrow> pyfloat" where
  "float_div NaN y = NaN"
| "float_div x NaN = NaN"
| "float_div (Infinity s) (Infinity t) = NaN"
| "float_div (Infinity s) (Finite t n) = Infinity (s \<noteq> t)"
| "float_div (Finite s m) (Infinity t) = Finite (s \<noteq> t) 0"
| "float_div (Finite s m) (Finite t n) =
     (case to_binary64 (m / n) of None \<Rightarrow> Infinity (s \<noteq> t) | Some r \<Rightarrow> Finite (s \<noteq> t) r)"

text \<open>\<open>float(i)\<close> for an int: the nearest float, OverflowError beyond the range.\<close>

definition float_of_int :: "int \<Rightarrow> pyerr + pyfloat" where
  "float_of_int i =
     (case to_binary64 \<bar>of_int i\<bar> of
        None \<Rightarrow> Inl OverflowError
      | Some m \<Rightarrow> Inr (Finite (i < 0) m))"

text \<open>The numbers among the values: \<open>bool\<close> is a subclass of \<open>int\<close>.\<close>

fun as_number :: "json \<Rightarrow> (int + pyfloat) option" where
  "as_number (JInt i) = Some (Inl i)"
| "as_number (JBool b) = Some (Inl (if b then 1 else 0))"
| "as_number (JFloat x) = Some (Inr x)"
| "as_number _ = None"

fun to_float :: "int + pyfloat \<Rightarrow> pyerr + pyfloat" where
  "to_float (Inl i) = float_of_int i"
| "to_float (Inr x) = Inr x"

text \<open>\<open>a - b\<close>: exact on two ints, a float as soon as one operand is a float.\<close>

definition py_sub :: "json \<Rightarrow> json \<Rightarrow> pyerr + json" where
  "py_sub a b =
     (case (as_number a, as_number b) of
        (Some (Inl i), Some (Inl j)) \<Rightarrow> Inr (JInt (i - j))
      | (Some x, Some y) \<Rightarrow>
          and_then (to_float x) (\<lambda>fx. and_then (to_float y) (\<lambda>fy. Inr (JFloat (float_sub fx fy))))
      | _ \<Rightarrow> Inl TypeError)"

text \<open>\<open>a / b\<close>: always a float. Two ints are divided exactly and rounded once (the sign of
  a zero quotient is the sign of the division); a zero divisor raises.\<close>

definition py_truediv :: "json \<Rightarrow> json \<Rightarrow> pyerr + pyfloat" where
  "py_truediv a b =
     (case (as_number a, as_number b) of
        (Some (Inl i), Some (Inl j)) \<Rightarrow>
          if j = 0 then Inl ZeroDivisionError
          else (case to_binary64 (\<bar>of_int i\<bar> / \<bar>of_int j\<bar>) of
                  None \<Rightarrow> Inl OverflowError
                | Some m \<Rightarrow> Inr (Finite ((i < 0) \<noteq> (j < 0)) m))
      | (Some x, Some y) \<Rightarrow>
          and_then (to_float x) (\<lambda>fx. and_then (to_float y) (\<lambda>fy.
            if fy = Finite False 0 \<or> fy = Finite True 0 then Inl ZeroDivisionError
            else Inr (float_div fx fy)))
      | _ \<Rightarrow> Inl TypeError)"

text \<open>\<open>round(x, n)\<close> on a float: the exact value rounded half-even to \<open>n\<close> decimals, then the
  nearest float to that decimal; the sign is kept and the non-finite values are returned
  as they are.\<close>

fun round_ndigits :: "nat \<Rightarrow> pyfloat \<Rightarrow> pyerr + pyfloat" where
  "round_ndigits n (Finite s m) =
     (case to_binary64 (of_int (round_half_even (m * 10 ^ n)) / 10 ^ n) of
        None \<Rightarrow> Inl OverflowError
      | Some r \<Rightarrow> Inr (Finite s r))"
| "round_ndigits n x = Inr x"

subsection \<open>Formatting\<close>

definition digit_char :: "int \<Rightarrow> char" where
  "digit_char d = char_of (48 + d)"

text \<open>The decimal digits of a non-negative integer.\<close>

function show_digits :: "int \<Rightarrow> string" where
  "show_digits n =
     (if n < 10 then [digit_char n] else show_digits (n div 10) @ [digit_char (n mod 10)])"
  by pat_completeness auto
termination
  by (relation "measure nat") auto

declare show_digits.simps [simp del]

definition show_int :: "int \<Rightarrow> string" where
  "show_int i = (if i < 0 then CHR ''-'' # show_digits (- i) else show_digits i)"

text \<open>The \<open>,\<close> option: a comma before every group of three digits, from the right.\<close>

function group3 :: "string \<Rightarrow> string" where
  "group3 ds =
     (if length ds \<le> 3 then ds
      else group3 (take (length ds - 3) ds) @ CHR '','' # drop (length ds - 3) ds)"
  by pat_completeness auto
termination
  by (relation "measure length") auto

declare group3.simps [simp del]

definition sign_str :: "bool \<Rightarrow> bool \<Rightarrow> string" where
  "sign_str pl neg = (if neg then ''-'' else if pl then ''+'' else [])"

text \<open>
  The format specs of the digest, \<open>[+][,].<prec>f\<close>: the exact binary value rounded
  half-even to \<open>prec\<close> decimals, the sign taken from the sign bit.
\<close>

fun format_float :: "bool \<Rightarrow> bool \<Rightarrow> nat \<Rightarrow> pyfloat \<Rightarrow> string" where
  "format_float pl comma prec (Finite s m) =
     (let n = round_half_even (m * 10 ^ prec);
          ip = show_digits (n div 10 ^ prec);
          fp = show_digits (n mod 10 ^ prec)
      in sign_str pl s @ (if comma then group3 ip else ip)
         @ (if prec = 0 then [] else CHR ''.'' # replicate (prec - length fp) CHR ''0'' @ fp))"
| "format_float pl comma prec (Infinity s) = sign_str pl s @ ''inf''"
| "format_float pl comma prec NaN = sign_str pl False @ ''nan''"

text \<open>\<open>format(v, spec)\<close> with a float spec: an int (or bool) is converted to a float first,
  a string rejects the code \<open>f\<close> (ValueError), the rest have no float formatting
  (TypeError).\<close>

fun format_f :: "bool \<Rightarrow> bool \<Rightarrow> nat \<Rightarrow> json \<Rightarrow> pyerr + string" where
  "format_f pl comma prec (JFloat x) = Inr (format_float pl comma prec x)"
| "format_f pl comma prec (JInt i) =
     and_then (float_of_int i) (\<lambda>x. Inr (format_float pl comma prec x))"
| "format_f pl comma prec (JBool b) =
     and_then (float_of_int (if b then 1 else 0)) (\<lambda>x. Inr (format_float pl comma prec x))"
| "format_f pl comma prec (JStr s) = Inl ValueError"
| "format_f pl comma prec _ = Inl TypeError"

text \<open>
  A field without a format spec is \<open>str(v)\<close>. Python's \<open>repr\<close> of a float (the shortest
  digits that read back as the same float) and of a list or dict is the interpreter's
  own; it is the parameter \<open>rp\<close> of everything that renders text.
\<close>

fun py_str :: "(json \<Rightarrow> string) \<Rightarrow> json \<Rightarrow> string" where
  "py_str rp (JStr s) = s"
| "py_str rp (JInt i) = show_int i"
| "py_str rp (JBool b) = (if b then ''True'' else ''False'')"
| "py_str rp JNull = ''None''"
| "py_str rp v = rp v"

section \<open>The signal digest (\<open>analyzer.py\<close>, \<open>build_signal_digest\<close>)\<close>

text \<open>
  \<open>build_signal_digest\<close> appends text lines to the list \<open>parts\<close> and joins them with
  newlines. Some of the appended strings begin with a newline themselves (the blank line
  before a sub-heading). The star glyph of the repository lines is kept as the three bytes
  of its UTF-8 encoding.
\<close>

definition nl :: char where
  "nl = char_of (10 :: nat)"

definition star :: string where
  "star = [char_of (226 :: nat), char_of (152 :: nat), char_of (133 :: nat)]"

text \<open>\<open>{p['k']}\<close>, \<open>{p['k']:spec}\<close> and \<open>{d.get('k', 0):spec}\<close> inside an f-string.\<close>

definition field_str :: "(json \<Rightarrow> string) \<Rightarrow> json \<Rightarrow> string \<Rightarrow> pyerr + string" where
  "field_str rp p k = and_then (subscript_key p k) (\<lambda>v. Inr (py_str rp v))"

definition field_f :: "bool \<Rightarrow> bool \<Rightarrow> nat \<Rightarrow> json \<Rightarrow> string \<Rightarrow> pyerr + string" where
  "field_f pl comma prec p k = and_then (subscript_key p k) (format_f pl comma prec)"

definition get_f :: "bool \<Rightarrow> bool \<Rightarrow> nat \<Rightarrow> json \<Rightarrow> string \<Rightarrow> pyerr + string" where
  "get_f pl comma prec d k = and_then (dict_get d k (JInt 0)) (format_f pl comma prec)"

text \<open>\<open>{p['k'][:n]}\<close>\<close>

definition field_slice :: "(json \<Rightarrow> string) \<Rightarrow> nat \<Rightarrow> json \<Rightarrow> string \<Rightarrow> pyerr + string" where
  "field_slice rp n p k =
     and_then (subscript_key p k) (\<lambda>v. and_then (slice_to n v) (\<lambda>s. Inr (py_str rp s)))"

text \<open>\<open>for x in v: parts.append(...)\<close>\<close>

definition for_each :: "json \<Rightarrow> (json \<Rightarrow> pyerr + 'a) \<Rightarrow> pyerr + 'a list" where
  "for_each v f = and_then (iterate v) (map_err f)"

text \<open>\<open>for x in d.get(k, [])[:n]: parts.append(...)\<close>\<close>

definition for_top :: "nat \<Rightarrow> json \<Rightarrow> string \<Rightarrow> (json \<Rightarrow> pyerr + 'a) \<Rightarrow> pyerr + 'a list" where
  "for_top n d k f =
     and_then (dict_get d k (JList [])) (\<lambda>v. and_then (slice_to n v) (\<lambda>s. for_each s f))"

text \<open>\<open>sep.join(v)\<close>: every element has to be a string.\<close>

fun as_str :: "json \<Rightarrow> pyerr + string" where
  "as_str (JStr s) = Inr s"
| "as_str _ = Inl TypeError"

fun join_with :: "string \<Rightarrow> string list \<Rightarrow> string" where
  "join_with sep [] = []"
| "join_with sep [s] = s"
| "join_with sep (s # t # ts) = s @ sep @ join_with sep (t # ts)"

definition str_join :: "string \<Rightarrow> json \<Rightarrow> pyerr + string" where
  "str_join sep v = and_then (for_each v as_str) (\<lambda>ss. Inr (join_with sep ss))"

subsection \<open>The lines of each loop\<close>

definition protocol_line :: "(json \<Rightarrow> string) \<Rightarrow> json \<Rightarrow> pyerr + string" where
  "protocol_line rp p = fstring
     [Inr ''  '', field_str rp p ''name'', Inr '' ('', field_str rp p ''category'',
      Inr ''): TVL $'', field_f False True 0 p ''tvl'',
      Inr '', 7d: '', field_f True False 1 p ''change_7d'',
      Inr ''%, 1d: '', field_f True False 1 p ''change_1d'', Inr ''%'']"

definition yield_line :: "(json \<Rightarrow> string) \<Rightarrow> json \<Rightarrow> pyerr + string" where
  "yield_line rp y = fstring
     [Inr ''  '', field_str rp y ''project'', Inr '' '', field_str rp y ''symbol'',
      Inr '': APY '', field_f False False 1 y ''apy'',
      Inr ''% (30d avg: '', field_f False False 1 y ''apy_mean_30d'',
      Inr ''%), TVL $'', field_f False True 0 y ''tvl_usd'']"

definition network_lines :: "(json \<Rightarrow> string) \<Rightarrow> json \<Rightarrow> pyerr + string list" where
  "network_lines rp net =
     and_then (contains_str ''avg_tps'' net) (\<lambda>present.
       if present
       then and_then (fstring [Inr (nl # ''Network TPS (avg): ''), field_str rp net ''avg_tps''])
              (\<lambda>l. Inr [l])
       else Inr [])"

text \<open>A trending repository: its line, and a topics line when \<open>r.get("topics")\<close> is truthy.\<close>

definition topics_line :: "json \<Rightarrow> pyerr + string" where
  "topics_line r = fstring
     [Inr ''    topics: '',
      and_then (subscript_key r ''topics'') (\<lambda>t. and_then (slice_to 5 t) (str_join '', ''))]"

definition trending_new_block :: "(json \<Rightarrow> string) \<Rightarrow> json \<Rightarrow> pyerr + string list" where
  "trending_new_block rp r =
     and_then (fstring
        [Inr ''  '', field_str rp r ''name'', Inr ('': '' @ star), field_str rp r ''stars'',
         Inr '' | '',
         and_then (subscript_key r ''language'')
           (\<lambda>l. Inr (py_str rp (if truthy l then l else JStr ''N/A''))),
         Inr '' | '', field_slice rp 100 r ''description''])
       (\<lambda>line. and_then (dict_get r ''topics'' JNull) (\<lambda>t.
          if truthy t then and_then (topics_line r) (\<lambda>l2. Inr [line, l2]) else Inr [line]))"

definition most_active_line :: "(json \<Rightarrow> string) \<Rightarrow> json \<Rightarrow> pyerr + string" where
  "most_active_line rp r = fstring
     [Inr ''  '', field_str rp r ''name'', Inr ('': '' @ star), field_str rp r ''stars'',
      Inr '' | pushed: '', field_slice rp 10 r ''pushed_at'']"

definition topic_line :: "(json \<Rightarrow> string) \<Rightarrow> json \<Rightarrow> pyerr + string" where
  "topic_line rp t = fstring
     [Inr ''  '', field_str rp t ''topic'', Inr '': '', field_str rp t ''repo_count'',
      Inr '' repos, '', field_str rp t ''total_stars'', Inr '' total stars'']"

definition token_line :: "(json \<Rightarrow> string) \<Rightarrow> json \<Rightarrow> pyerr + string" where
  "token_line rp t = fstring
     [Inr ''  '', field_str rp t ''symbol'', Inr '': $'', field_f False False 4 t ''price'',
      Inr '', 7d: '', field_f True False 1 t ''change_7d'',
      Inr ''%, 14d: '', field_f True False 1 t ''change_14d'', Inr ''%'']"

definition trending_line :: "(json \<Rightarrow> string) \<Rightarrow> json \<Rightarrow> pyerr + string" where
  "trending_line rp t = fstring
     [Inr ''  '', field_str rp t ''name'', Inr '' ('', field_str rp t ''symbol'', Inr '')'']"

text \<open>\<open>if market.get("trending"):\<close> the heading, then one line for every element of
  \<open>market["trending"]\<close>, with no slice.\<close>

definition trending_lines :: "(json \<Rightarrow> string) \<Rightarrow> json \<Rightarrow> pyerr + string list" where
  "trending_lines rp market =
     and_then (dict_get market ''trending'' JNull) (\<lambda>t.
       if truthy t
       then and_then (subscript_key market ''trending'') (\<lambda>ts.
              and_then (for_each ts (trending_line rp)) (\<lambda>ls.
                Inr ((nl # ''Trending Solana tokens on CoinGecko:'') # ls)))
       else Inr [])"

definition category_line :: "(json \<Rightarrow> string) \<Rightarrow> json \<Rightarrow> pyerr + string" where
  "category_line rp c = fstring
     [Inr ''  '', field_str rp c ''name'', Inr '': mcap change 24h: '',
      field_f True False 1 c ''market_cap_change_24h'', Inr ''%'']"

definition article_line :: "(json \<Rightarrow> string) \<Rightarrow> json \<Rightarrow> pyerr + string" where
  "article_line rp a = fstring
     [Inr ''  ['', field_str rp a ''source'', Inr ''] '', field_str rp a ''title'']"

text \<open>An ecosystem article: its line, and a summary line when \<open>a.get("summary")\<close> is
  truthy.\<close>

definition article_block :: "(json \<Rightarrow> string) \<Rightarrow> json \<Rightarrow> pyerr + string list" where
  "article_block rp a =
     and_then (article_line rp a) (\<lambda>line. and_then (dict_get a ''summary'' JNull) (\<lambda>s.
       if truthy s
       then and_then (fstring [Inr ''    '', field_slice rp 150 a ''summary'']) (\<lambda>l2. Inr [line, l2])
       else Inr [line]))"

definition governance_line :: "(json \<Rightarrow> string) \<Rightarrow> json \<Rightarrow> pyerr + string" where
  "governance_line rp g = fstring
     [Inr ''  '', field_str rp g ''title'', Inr '' (by '', field_str rp g ''user'', Inr '')'']"

subsection \<open>The digest\<close>

text \<open>
  What the loops and the formatted lines of one run append, in the order of the source.
  A trending repository and an ecosystem article append one or two lines each, so these
  two are kept as one block per rendered entity.
\<close>

record sections =
  s_tvl :: "string list"
  s_protocols :: "string list"
  s_yields :: "string list"
  s_network :: "string list"
  s_trending_new :: "string list list"
  s_most_active :: "string list"
  s_topics :: "string list"
  s_sol :: "string list"
  s_tokens :: "string list"
  s_trending :: "string list"
  s_categories :: "string list"
  s_articles :: "string list list"
  s_news :: "string list"
  s_governance :: "string list"

type_synonym signals = "(string \<times> json) list"

definition onchain_sections ::
  "(json \<Rightarrow> string) \<Rightarrow> signals \<Rightarrow>
   pyerr + string list \<times> string list \<times> string list \<times> string list" where
  "onchain_sections rp signals =
     and_then (dict_get (JObj signals) ''onchain'' (JObj [])) (\<lambda>onchain.
     and_then (dict_get onchain ''tvl'' (JObj [])) (\<lambda>tvl.
     and_then (fstring [Inr ''Solana TVL: $'', get_f False True 0 tvl ''current_tvl'']) (\<lambda>l1.
     and_then (fstring [Inr ''  14d change: '', get_f True False 1 tvl ''change_14d_pct'', Inr ''%'']) (\<lambda>l2.
     and_then (fstring [Inr ''  30d change: '', get_f True False 1 tvl ''change_30d_pct'', Inr ''%'']) (\<lambda>l3.
     and_then (for_top 15 onchain ''top_protocols'' (protocol_line rp)) (\<lambda>protocols.
     and_then (for_top 10 onchain ''yields'' (yield_line rp)) (\<lambda>yields.
     and_then (dict_get onchain ''network'' (JObj [])) (\<lambda>net.
     and_then (network_lines rp net) (\<lambda>network.
     Inr ([l1, l2, l3], protocols, yields, network))))))))))"

definition developer_sections ::
  "(json \<Rightarrow> string) \<Rightarrow> signals \<Rightarrow> pyerr + string list list \<times> string list \<times> string list" where
  "developer_sections rp signals =
     and_then (dict_get (JObj signals) ''github'' (JObj [])) (\<lambda>github.
     and_then (for_top 10 github ''trending_new'' (trending_new_block rp)) (\<lambda>trending_new.
     and_then (for_top 10 github ''most_active'' (most_active_line rp)) (\<lambda>most_active.
     and_then (dict_get github ''ecosystem_topics'' (JList [])) (\<lambda>ts.
     and_then (for_each ts (topic_line rp)) (\<lambda>topics.
     Inr (trending_new, most_active, topics))))))"

definition market_sections ::
  "(json \<Rightarrow> string) \<Rightarrow> signals \<Rightarrow>
   pyerr + string list \<times> string list \<times> string list \<times> string list" where
  "market_sections rp signals =
     and_then (dict_get (JObj signals) ''market'' (JObj [])) (\<lambda>market.
     and_then (dict_get market ''sol'' (JObj [])) (\<lambda>sol.
     and_then (fstring [Inr ''SOL: $'', get_f False True 2 sol ''price_usd'']) (\<lambda>l1.
     and_then (fstring
        [Inr ''  24h: '', get_f True False 1 sol ''change_24h'',
         Inr ''%, 7d: '', get_f True False 1 sol ''change_7d'',
         Inr ''%, 14d: '', get_f True False 1 sol ''change_14d'',
         Inr ''%, 30d: '', get_f True False 1 sol ''change_30d'', Inr ''%'']) (\<lambda>l2.
     and_then (for_top 15 market ''ecosystem_tokens'' (token_line rp)) (\<lambda>tokens.
     and_then (trending_lines rp market) (\<lambda>trending.
     and_then (for_top 10 market ''categories'' (category_line rp)) (\<lambda>categories.
     Inr ([l1, l2], tokens, trending, categories))))))))"

definition social_sections ::
  "(json \<Rightarrow> string) \<Rightarrow> signals \<Rightarrow> pyerr + string list list \<times> string list \<times> string list" where
  "social_sections rp signals =
     and_then (dict_get (JObj signals) ''social'' (JObj [])) (\<lambda>social.
     and_then (for_top 15 social ''ecosystem_articles'' (article_block rp)) (\<lambda>articles.
     and_then (for_top 10 social ''news_articles'' (article_line rp)) (\<lambda>news.
     and_then (for_top 5 social ''governance'' (governance_line rp)) (\<lambda>governance.
     Inr (articles, news, governance)))))"

definition digest_sections :: "(json \<Rightarrow> string) \<Rightarrow> signals \<Rightarrow> pyerr + sections" where
  "digest_sections rp signals =
     and_then (onchain_sections rp signals) (\<lambda>(tvl, protocols, yields, network).
     and_then (developer_sections rp signals) (\<lambda>(trending_new, most_active, topics).
     and_then (market_sections rp signals) (\<lambda>(sol, tokens, trending, categories).
     and_then (social_sections rp signals) (\<lambda>(articles, news, governance).
     Inr \<lparr>s_tvl = tvl, s_protocols = protocols, s_yields = yields, s_network = network,
          s_trending_new = trending_new, s_most_active = most_active, s_topics = topics,
          s_sol = sol, s_tokens = tokens, s_trending = trending, s_categories = categories,
          s_articles = articles, s_news = news, s_governance = governance\<rparr>))))"

text \<open>The list \<open>parts\<close> at the end of the function: the fixed headings around the
  sections.\<close>

definition assemble :: "sections \<Rightarrow> string list" where
  "assemble s =
     [''## ONCHAIN SIGNALS''] @ s_tvl s
     @ [nl # ''Top protocols by TVL movement (7d):''] @ s_protocols s
     @ [nl # ''Top yield opportunities:''] @ s_yields s
     @ s_network s
     @ [nl # ''## DEVELOPER SIGNALS'', ''Trending new Solana repos (last 30 days):'']
     @ concat (s_trending_new s)
     @ [nl # ''Most active repos (last 14 days):''] @ s_most_active s
     @ [nl # ''Ecosystem topic breakdown:''] @ s_topics s
     @ [nl # ''## MARKET SIGNALS''] @ s_sol s
     @ [nl # ''Top Solana ecosystem tokens (by market cap):''] @ s_tokens s
     @ s_trending s
     @ [nl # ''Relevant categories:''] @ s_categories s
     @ [nl # ''## SOCIAL & NEWS SIGNALS'', ''Recent ecosystem articles:'']
     @ concat (s_articles s)
     @ [nl # ''Crypto news mentioning Solana:''] @ s_news s
     @ [nl # ''Governance (open SIMDs):''] @ s_governance s"

definition digest_parts :: "(json \<Rightarrow> string) \<Rightarrow> signals \<Rightarrow> pyerr + string list" where
  "digest_parts rp signals = and_then (digest_sections rp signals) (\<lambda>s. Inr (assemble s))"

definition build_signal_digest :: "(json \<Rightarrow> string) \<Rightarrow> signals \<Rightarrow> pyerr + string" where
  "build_signal_digest rp signals =
     and_then (digest_parts rp signals) (\<lambda>parts. Inr (join_with [nl] parts))"

section \<open>The analyzer (\<open>analyzer.py\<close>)\<close>

subsection \<open>Counting the signals\<close>

text \<open>
  The two nested loops of \<open>analyze\<close>: every value of the bundle that is a dict, and in
  it every value that is a list, adds its length to \<open>total\<close>.
\<close>

definition count_fields :: "json list \<Rightarrow> int \<Rightarrow> int" where
  "count_fields vs total_n =
     fold (\<lambda>v t. case v of JList xs \<Rightarrow> t + int (length xs) | _ \<Rightarrow> t) vs total_n"

definition count_signals :: "signals \<Rightarrow> int" where
  "count_signals signals =
     fold (\<lambda>category total_n.
             case category of JObj kvs \<Rightarrow> count_fields (map snd kvs) total_n | _ \<Rightarrow> total_n)
          (map snd signals) 0"

subsection \<open>The reasoning service\<close>

text \<open>
  What \<open>analyze_with_claude\<close> takes from outside the repository: whether the client
  package imports, the credential of the environment, the request (from the user message
  to the text of the first content block of the response, or the exception the request or
  that access raises), \<open>json.loads\<close> (no result is JSONDecodeError), and the clock.
\<close>

record env =
  anthropic_installed :: bool
  api_key :: "string option"
  create_message :: "string \<Rightarrow> pyerr + string"
  json_loads :: "string \<Rightarrow> json option"
  today :: string
  now_iso :: string

text \<open>\<open>s.split(sep)\<close> for a non-empty separator: the pieces between its occurrences, found
  from left to right.\<close>

function split_acc :: "string \<Rightarrow> string \<Rightarrow> string \<Rightarrow> string list" where
  "split_acc sep acc [] = [rev acc]"
| "split_acc sep acc (c # cs) =
     (if sep \<noteq> [] \<and> take (length sep) (c # cs) = sep
      then rev acc # split_acc sep [] (drop (length sep) (c # cs))
      else split_acc sep (c # acc) cs)"
  by pat_completeness auto
termination
  by (relation "measure (\<lambda>(sep, acc, s). length s)") auto

definition py_split :: "string \<Rightarrow> string \<Rightarrow> string list" where
  "py_split sep s = split_acc sep [] s"

definition fence :: string where
  "fence = replicate 3 (char_of (96 :: nat))"

text \<open>The text handed to \<open>json.loads\<close>: the inside of the first fence marked \<open>json\<close>, else
  of the first fence, else the whole response.\<close>

definition extract_json :: "string \<Rightarrow> pyerr + string" where
  "extract_json text =
     (if is_substring (fence @ ''json'') text
      then and_then (list_index (py_split (fence @ ''json'') text) 1)
             (\<lambda>t. list_index (py_split fence t) 0)
      else if is_substring fence text
      then and_then (list_index (py_split fence text) 1) (\<lambda>t. list_index (py_split fence t) 0)
      else Inr text)"

definition user_message :: "string \<Rightarrow> string \<Rightarrow> string" where
  "user_message date digest =
     ''Analyze these Solana ecosystem signals from the past fortnight and identify ''
     @ ''emerging narratives. Today'' @ [char_of (39 :: nat)] @ ''s date is '' @ date
     @ ''.'' @ [nl, nl] @ digest"

definition analyze_with_claude :: "(json \<Rightarrow> string) \<Rightarrow> env \<Rightarrow> signals \<Rightarrow> pyerr + json" where
  "analyze_with_claude rp env signals =
     (if \<not> anthropic_installed env then Inr (JObj [])
      else if api_key env = None \<or> api_key env = Some [] then Inr (JObj [])
      else
        and_then (build_signal_digest rp signals) (\<lambda>digest.
        and_then (create_message env (user_message (today env) digest)) (\<lambda>response.
        and_then (extract_json response) (\<lambda>text.
          case json_loads env text of
            Some v \<Rightarrow> Inr v
          | None \<Rightarrow> Inr (JObj [(''raw_response'', JStr text)])))))"

subsection \<open>\<open>analyze\<close>\<close>

definition em_dash :: string where
  "em_dash = [char_of (226 :: nat), char_of (128 :: nat), char_of (148 :: nat)]"

definition data_sources :: json where
  "data_sources =
     JList [JStr ''DeFiLlama'', JStr ''GitHub'', JStr ''CoinGecko'', JStr ''RSS Feeds'',
            JStr ''Solana RPC'']"

text \<open>The dict returned after the comment "If API analysis failed, return the raw digest
  for manual analysis".\<close>

definition fallback_report :: "string \<Rightarrow> string \<Rightarrow> int \<Rightarrow> json" where
  "fallback_report now digest total_n =
     JObj [(''analysis_date'', JStr now),
           (''period'', JStr ''Current fortnight''),
           (''executive_summary'',
              JStr (''Analysis pending '' @ em_dash @ '' raw signals collected successfully.'')),
           (''narratives'', JList []),
           (''raw_digest'', JStr digest),
           (''meta'', JObj [(''signals_analyzed'', JInt total_n),
                            (''data_sources'', data_sources),
                            (''status'', JStr ''raw_signals_only'')])]"

text \<open>\<open>result and "narratives" in result\<close>\<close>

definition has_narratives :: "json \<Rightarrow> pyerr + bool" where
  "has_narratives result = (if truthy result then contains_str ''narratives'' result else Inr False)"

text \<open>The accepted branch: \<open>result["meta"] = result.get("meta", {})\<close>, the count stored in
  that dict, and the length of \<open>result['narratives']\<close> taken for the log line.\<close>

definition accept_report :: "json \<Rightarrow> int \<Rightarrow> pyerr + json" where
  "accept_report result total_n =
     and_then (dict_get result ''meta'' (JObj [])) (\<lambda>meta.
     and_then (set_item result ''meta'' meta) (\<lambda>result1.
     and_then (set_item meta ''signals_analyzed'' (JInt total_n)) (\<lambda>meta1.
     and_then (set_item result1 ''meta'' meta1) (\<lambda>result2.
     and_then (subscript_key result2 ''narratives'') (\<lambda>narratives.
     and_then (py_len narratives) (\<lambda>n. Inr result2))))))"

definition analyze :: "(json \<Rightarrow> string) \<Rightarrow> env \<Rightarrow> signals \<Rightarrow> pyerr + json" where
  "analyze rp env signals =
     and_then (build_signal_digest rp signals) (\<lambda>digest.
     and_then (analyze_with_claude rp env signals) (\<lambda>result.
     and_then (has_narratives result) (\<lambda>accepted.
       if accepted then accept_report result (count_signals signals)
       else Inr (fallback_report (now_iso env) digest (count_signals signals)))))"

section \<open>The orchestrator (\<open>main.py\<close>)\<close>

text \<open>
  The collectors, the clock and the file system are outside the functions modelled here:
  \<open>collect_all\<close> takes the outcome of each \<open>collect()\<close> call (the record, or the exception
  that call raised), the timestamp, and \<open>persist\<close>, the outcome of writing a document to
  a named file (\<open>None\<close> when the write succeeds).
\<close>

definition collect_all ::
  "(pyerr + json) \<Rightarrow> (pyerr + json) \<Rightarrow> (pyerr + json) \<Rightarrow> (pyerr + json) \<Rightarrow> string \<Rightarrow>
   (string \<Rightarrow> json \<Rightarrow> pyerr option) \<Rightarrow> pyerr + signals" where
  "collect_all onchain_collected github_collected market_collected social_collected now persist =
     and_then onchain_collected (\<lambda>onchain.
     and_then github_collected (\<lambda>github.
     and_then market_collected (\<lambda>market.
     and_then social_collected (\<lambda>social.
       let signals = [(''onchain'', onchain), (''github'', github), (''market'', market),
                      (''social'', social), (''collected_at'', JStr now)]
       in case persist ''signals.json'' (JObj signals) of
            Some e \<Rightarrow> Inl e
          | None \<Rightarrow> Inr signals))))"

text \<open>\<open>x[:5] + y[:5]\<close>: both operands are slices, so lists or strings.\<close>

fun concat_slices :: "json \<Rightarrow> json \<Rightarrow> pyerr + json" where
  "concat_slices (JList xs) (JList ys) = Inr (JList (xs @ ys))"
| "concat_slices (JStr s) (JStr t) = Inr (JStr (s @ t))"
| "concat_slices _ _ = Inl TypeError"

text \<open>\<open>signals.get(category, {}).get(field, default)\<close>\<close>

definition get2 :: "signals \<Rightarrow> string \<Rightarrow> string \<Rightarrow> json \<Rightarrow> pyerr + json" where
  "get2 signals category field dflt =
     and_then (dict_get (JObj signals) category (JObj [])) (\<lambda>c. dict_get c field dflt)"

definition recent_news :: "signals \<Rightarrow> pyerr + json" where
  "recent_news signals =
     and_then (get2 signals ''social'' ''ecosystem_articles'' (JList [])) (\<lambda>eco.
     and_then (slice_to 5 eco) (\<lambda>eco5.
     and_then (get2 signals ''social'' ''news_articles'' (JList [])) (\<lambda>news.
     and_then (slice_to 5 news) (\<lambda>news5.
     concat_slices eco5 news5))))"

definition highlights :: "signals \<Rightarrow> pyerr + json" where
  "highlights signals =
     and_then (get2 signals ''market'' ''sol'' (JObj [])) (\<lambda>sol_price.
     and_then (get2 signals ''onchain'' ''tvl'' (JObj [])) (\<lambda>tvl.
     and_then (and_then (get2 signals ''onchain'' ''top_protocols'' (JList [])) (slice_to 5)) (\<lambda>top_movers.
     and_then (and_then (get2 signals ''github'' ''trending_new'' (JList [])) (slice_to 5)) (\<lambda>trending_repos.
     and_then (recent_news signals) (\<lambda>news.
     Inr (JObj [(''sol_price'', sol_price), (''tvl'', tvl), (''top_movers'', top_movers),
                (''trending_repos'', trending_repos), (''recent_news'', news)]))))))"

text \<open>\<open>generate_site\<close> creates the site directory (\<open>mkdir\<close> is the outcome of that),
  builds the document and writes it to \<open>data.json\<close>. It returns nothing; the model
  returns the document written.\<close>

definition generate_site ::
  "json \<Rightarrow> signals \<Rightarrow> pyerr option \<Rightarrow> string \<Rightarrow> (string \<Rightarrow> json \<Rightarrow> pyerr option) \<Rightarrow>
   pyerr + json" where
  "generate_site analysis signals mkdir now persist =
     (case mkdir of
        Some e \<Rightarrow> Inl e
      | None \<Rightarrow>
          and_then (highlights signals) (\<lambda>h.
            let site_data = JObj [(''generated_at'', JStr now), (''analysis'', analysis),
                                  (''highlights'', h)]
            in case persist ''data.json'' site_data of
                 Some e \<Rightarrow> Inl e
               | None \<Rightarrow> Inr site_data))"

section \<open>The onchain collector (\<open>collectors/onchain.py\<close>)\<close>

text \<open>
  \<open>_get\<close> catches every exception of the request (transport failure, error status, a body
  that is not JSON) and returns \<open>None\<close>; otherwise it returns the decoded body.
\<close>

datatype upstream = Failed | Response json

fun http_get :: "upstream \<Rightarrow> json" where
  "http_get Failed = JNull"
| "http_get (Response body) = body"

text \<open>\<open>round(((current - old) / old) * 100, 2)\<close>\<close>

definition change_pct :: "json \<Rightarrow> json \<Rightarrow> pyerr + json" where
  "change_pct current old =
     and_then (py_sub current old) (\<lambda>d.
     and_then (py_truediv d old) (\<lambda>q.
     and_then (round_ndigits 2 (float_mul q (Finite False 100))) (\<lambda>r. Inr (JFloat r))))"

definition tvl_at :: "json \<Rightarrow> int \<Rightarrow> pyerr + json" where
  "tvl_at recent i = and_then (subscript_int recent i) (\<lambda>d. subscript_key d ''tvl'')"

definition data_point :: "json \<Rightarrow> pyerr + json" where
  "data_point d =
     and_then (subscript_key d ''date'') (\<lambda>date.
     and_then (subscript_key d ''tvl'') (\<lambda>tvl. Inr (JObj [(''date'', date), (''tvl'', tvl)])))"

definition get_solana_tvl_history :: "upstream \<Rightarrow> pyerr + json" where
  "get_solana_tvl_history u =
     (let data = http_get u in
      if \<not> truthy data then Inr (JObj [(''error'', JStr ''Failed to fetch TVL'')])
      else
        and_then (slice_last 30 data) (\<lambda>recent.
        and_then (tvl_at recent (- 1)) (\<lambda>current.
        and_then (py_len recent) (\<lambda>n.
        and_then (if 14 \<le> n then tvl_at recent (- 14) else tvl_at recent 0) (\<lambda>tvl_14d.
        and_then (tvl_at recent 0) (\<lambda>tvl_30d.
        and_then (change_pct current tvl_14d) (\<lambda>change_14d.
        and_then (change_pct current tvl_30d) (\<lambda>change_30d.
        and_then (for_each recent data_point) (\<lambda>points.
        Inr (JObj [(''current_tvl'', current),
                   (''tvl_14d_ago'', tvl_14d),
                   (''tvl_30d_ago'', tvl_30d),
                   (''change_14d_pct'', change_14d),
                   (''change_30d_pct'', change_30d),
                   (''data_points'', JList points)]))))))))))"

text \<open>
  \<open>collect\<close> calls the five getters in the order of the dict literal and then takes the
  lengths of two of the results for its log line. The other four getters enter as the
  outcomes of their calls.
\<close>

definition onchain_collect ::
  "upstream \<Rightarrow> (pyerr + json) \<Rightarrow> (pyerr + json) \<Rightarrow> (pyerr + json) \<Rightarrow> (pyerr + json) \<Rightarrow>
   string \<Rightarrow> pyerr + json" where
  "onchain_collect tvl_upstream top_protocols_got yields_got stablecoins_got network_got now =
     and_then (get_solana_tvl_history tvl_upstream) (\<lambda>tvl.
     and_then top_protocols_got (\<lambda>top_protocols.
     and_then yields_got (\<lambda>yields.
     and_then stablecoins_got (\<lambda>stablecoins.
     and_then network_got (\<lambda>network.
     and_then (py_len top_protocols) (\<lambda>proto_count.
     and_then (py_len yields) (\<lambda>yield_count.
     Inr (JObj [(''tvl'', tvl), (''top_protocols'', top_protocols), (''yields'', yields),
                (''stablecoins'', stablecoins), (''network'', network),
                (''collected_at'', JStr now)]))))))))"

section \<open>Specification-side definitions and example inputs\<close>

subsection \<open>Bundles with long lists\<close>

text \<open>A bundle with 50 entities in every capped list.\<close>

definition wide_bundle :: signals where
  "wide_bundle =
     [(''onchain'', JObj
         [(''top_protocols'', JList (replicate 50 (JObj
             [(''name'', JStr ''Jito''), (''category'', JStr ''Liquid Staking''),
              (''tvl'', JInt 2500000000), (''change_7d'', JFloat (Finite True (25 / 2))),
              (''change_1d'', JFloat (Finite False (3 / 4)))]))),
          (''yields'', JList (replicate 50 (JObj
             [(''project'', JStr ''kamino''), (''symbol'', JStr ''SOL-USDC''),
              (''apy'', JFloat (Finite False (33 / 4))), (''apy_mean_30d'', JInt 7),
              (''tvl_usd'', JInt 750000)])))]),
      (''github'', JObj
         [(''trending_new'', JList (replicate 50 (JObj
             [(''name'', JStr ''acme/solana-kit''), (''stars'', JInt 120),
              (''language'', JNull), (''description'', JStr ''A toolkit''),
              (''topics'', JList [JStr ''solana'', JStr ''defi''])])))]),
      (''market'', JObj
         [(''ecosystem_tokens'', JList (replicate 50 (JObj
             [(''symbol'', JStr ''JUP''), (''price'', JFloat (Finite False (3 / 4))),
              (''change_7d'', JInt 2), (''change_14d'', JInt (- 3))])))]),
      (''social'', JObj
         [(''ecosystem_articles'', JList (replicate 50 (JObj
             [(''source'', JStr ''Helius Blog''), (''title'', JStr ''Release notes''),
              (''summary'', JStr ''What changed'')]))),
          (''governance'', JList (replicate 50 (JObj
             [(''title'', JStr ''SIMD-0123''), (''user'', JStr ''alice'')])))])]"

text \<open>A bundle with 40 ecosystem topics and 50 trending tokens.\<close>

definition long_github :: "(string \<times> json) list" where
  "long_github =
     [(''ecosystem_topics'', JList (replicate 40 (JObj
         [(''topic'', JStr ''defi''), (''repo_count'', JInt 5), (''total_stars'', JInt 1234)])))]"

definition long_market :: "(string \<times> json) list" where
  "long_market =
     [(''trending'', JList (replicate 50 (JObj
         [(''name'', JStr ''Bonk''), (''symbol'', JStr ''BONK'')])))]"

definition long_bundle :: signals where
  "long_bundle = [(''github'', JObj long_github), (''market'', JObj long_market)]"

subsection \<open>The signal count in the words of the specification\<close>

text \<open>
  The count as the specification words it: the category records of a bundle are its
  entries that are dicts, the sequence-valued fields of a record are its entries that are
  lists.
\<close>

definition category_records :: "signals \<Rightarrow> (string \<times> json) list list" where
  "category_records signals = concat (map (\<lambda>(k, v). case v of JObj kvs \<Rightarrow> [kvs] | _ \<Rightarrow> []) signals)"

definition sequence_fields :: "(string \<times> json) list \<Rightarrow> json list list" where
  "sequence_fields kvs = concat (map (\<lambda>(k, v). case v of JList xs \<Rightarrow> [xs] | _ \<Rightarrow> []) kvs)"

definition sequence_lengths :: "(string \<times> json) list \<Rightarrow> int" where
  "sequence_lengths kvs = sum_list (map (\<lambda>xs. int (length xs)) (sequence_fields kvs))"

definition sum_of_sequence_lengths :: "signals \<Rightarrow> int" where
  "sum_of_sequence_lengths signals = sum_list (map sequence_lengths (category_records signals))"

text \<open>The \<open>signals_analyzed\<close> entry of a report, \<open>report["meta"]["signals_analyzed"]\<close>.\<close>

definition signals_analyzed :: "json \<Rightarrow> pyerr + json" where
  "signals_analyzed report =
     and_then (subscript_key report ''meta'') (\<lambda>meta. subscript_key meta ''signals_analyzed'')"

subsection \<open>A service that answers, and a collected bundle\<close>

text \<open>A service that answers with a fenced report of two narratives and its own count,
  and a bundle as \<open>collect_all\<close> assembles it.\<close>

definition service_report :: json where
  "service_report =
     JObj [(''analysis_date'', JStr ''2026-02-14''),
           (''narratives'', JList [JObj [(''id'', JInt 1)], JObj [(''id'', JInt 2)]]),
           (''meta'', JObj [(''signals_analyzed'', JInt 999),
                            (''data_sources'', JList [JStr ''DeFiLlama''])])]"

definition env_accepting :: env where
  "env_accepting =
     \<lparr>anthropic_installed = True, api_key = Some ''sk-test'',
      create_message = (\<lambda>m. Inr (''Here you go: '' @ fence @ ''json{...}'' @ fence)),
      json_loads = (\<lambda>s. if s = ''{...}'' then Some service_report else None),
      today = ''2026-02-14'', now_iso = ''2026-02-14T00:00:00+00:00''\<rparr>"

definition sample_bundle :: signals where
  "sample_bundle =
     [(''onchain'', JObj [(''tvl'', JObj [(''data_points'', JList [JInt 1, JInt 2])]),
                          (''top_protocols'', JList []),
                          (''yields'', JList []),
                          (''stablecoins'', JObj [(''stablecoins'', JList [JInt 1])]),
                          (''network'', JObj [(''avg_tps'', JInt 3000), (''samples'', JInt 10)]),
                          (''collected_at'', JStr ''2026-02-14T00:00:00+00:00'')]),
      (''github'', JObj [(''trending_new'', JList []),
                         (''ecosystem_topics'', JList
                            [JObj [(''topic'', JStr ''defi''), (''repo_count'', JInt 5),
                                   (''total_stars'', JInt 1234)],
                             JObj [(''topic'', JStr ''nft''), (''repo_count'', JInt 5),
                                   (''total_stars'', JInt 200)]])]),
      (''market'', JObj [(''trending'', JList
                            [JObj [(''name'', JStr ''Bonk''), (''symbol'', JStr ''BONK'')]])]),
      (''social'', JObj [(''governance'', JList
                            [JObj [(''title'', JStr ''SIMD-0123''), (''user'', JStr ''alice'')],
                             JObj [(''title'', JStr ''SIMD-0124''), (''user'', JStr ''bob'')]])]),
      (''collected_at'', JStr ''2026-02-14T00:00:00+00:00'')]"

subsection \<open>A token without a price, and environments of the analyzer\<close>

text \<open>
  The market record \<open>market.collect()\<close> builds when CoinGecko lists a token without a
  price: \<open>get_solana_ecosystem_tokens\<close> stores \<open>t.get("current_price")\<close>, which is \<open>None\<close>,
  and \<open>round(None or 0, 2)\<close>, which is the int 0.
\<close>

definition unpriced_token :: json where
  "unpriced_token =
     JObj [(''id'', JStr ''acme''), (''symbol'', JStr ''ACME''), (''name'', JStr ''Acme''),
           (''price'', JNull), (''market_cap'', JNull), (''market_cap_rank'', JNull),
           (''volume_24h'', JNull), (''change_24h'', JInt 0), (''change_7d'', JInt 0),
           (''change_14d'', JInt 0), (''change_30d'', JInt 0)]"

definition unpriced_bundle :: signals where
  "unpriced_bundle =
     [(''onchain'', JObj []), (''github'', JObj []),
      (''market'', JObj [(''sol'', JObj [(''error'', JStr ''Failed to fetch SOL data'')]),
                         (''ecosystem_tokens'', JList [unpriced_token]),
                         (''trending'', JList []), (''categories'', JList []),
                         (''collected_at'', JStr ''2026-02-14T00:00:00+00:00'')]),
      (''social'', JObj []),
      (''collected_at'', JStr ''2026-02-14T00:00:00+00:00'')]"

text \<open>An environment without the credential.\<close>

definition env_no_key :: env where
  "env_no_key =
     \<lparr>anthropic_installed = True, api_key = None,
      create_message = (\<lambda>m. Inl APIError), json_loads = (\<lambda>s. None),
      today = ''2026-02-14'', now_iso = ''2026-02-14T00:00:00+00:00''\<rparr>"

text \<open>A service whose answer holds a fenced block that is not JSON.\<close>

definition unparseable_response :: string where
  "unparseable_response = ''Here it is: '' @ fence @ ''json{narratives: ['' @ fence @ '' Done.''"

definition env_unparseable :: env where
  "env_unparseable =
     \<lparr>anthropic_installed = True, api_key = Some ''sk-test'',
      create_message = (\<lambda>m. Inr unparseable_response), json_loads = (\<lambda>s. None),
      today = ''2026-02-14'', now_iso = ''2026-02-14T00:00:00+00:00''\<rparr>"

subsection \<open>A TVL history, a file system that works, and articles\<close>

text \<open>
  Thirty daily points of \<open>/v2/historicalChainTvl/Solana\<close>: 4,000,000,000 thirty days
  ago, 4,500,000,000 at \<open>recent[-14]\<close>, 5,000,000,000 today.
\<close>

definition tvl_point :: "int \<Rightarrow> json" where
  "tvl_point v = JObj [(''date'', JInt 1770000000), (''tvl'', JInt v)]"

definition tvl_response :: json where
  "tvl_response =
     JList ([tvl_point 4000000000] @ replicate 15 (tvl_point 4200000000)
            @ [tvl_point 4500000000] @ replicate 12 (tvl_point 4800000000)
            @ [tvl_point 5000000000])"

text \<open>Two bodies an upstream can answer with status 200: a history whose only point
  has a TVL of zero, and an error object.\<close>

definition zero_tvl_response :: json where
  "zero_tvl_response = JList [tvl_point 0]"

definition error_body_response :: json where
  "error_body_response = JObj [(''message'', JStr ''rate limit exceeded'')]"

definition writes_succeed :: "string \<Rightarrow> json \<Rightarrow> pyerr option" where
  "writes_succeed name doc = None"

definition six_and_two :: signals where
  "six_and_two =
     [(''social'', JObj
         [(''ecosystem_articles'',
             JList [JStr ''A'', JStr ''B'', JStr ''C'', JStr ''D'', JStr ''E'', JStr ''F'']),
          (''news_articles'', JList [JStr ''X'', JStr ''Y''])])]"

section \<open>Properties\<close>

subsection \<open>Sequencing\<close>

lemma and_thenE:
  assumes "and_then m f = Inr y"
  obtains x where "m = Inr x" and "f x = Inr y"
  using assms by (cases m) (simp_all add: and_then_def)

lemma and_then_Inr [simp]: "and_then (Inr x) f = f x"
  by (simp add: and_then_def)

lemma and_then_Inl [simp]: "and_then (Inl e) f = Inl e"
  by (simp add: and_then_def)

subsection \<open>Loops and truncation\<close>

lemma map_err_length: "map_err f xs = Inr ys \<Longrightarrow> length ys = length xs"
  by (induction xs arbitrary: ys) (auto elim!: and_thenE)

lemma slice_iterate_length:
  "slice_to n v = Inr s \<Longrightarrow> iterate s = Inr items \<Longrightarrow> length items \<le> n"
  by (cases v) auto

lemma for_top_length: "for_top n d k f = Inr ys \<Longrightarrow> length ys \<le> n"
proof -
  assume "for_top n d k f = Inr ys"
  then obtain v s items where "slice_to n v = Inr s" "iterate s = Inr items"
    and "map_err f items = Inr ys"
    unfolding for_top_def for_each_def by (auto elim!: and_thenE)
  then show ?thesis
    using map_err_length [of f items ys] slice_iterate_length [of n v s items] by simp
qed

lemma onchain_sections_caps:
  "onchain_sections rp signals = Inr (tvl, ps, ys, net) \<Longrightarrow> length ps \<le> 15 \<and> length ys \<le> 10"
  unfolding onchain_sections_def
  by (auto elim!: and_thenE dest: for_top_length)

lemma developer_sections_caps:
  "developer_sections rp signals = Inr (tn, ma, tp) \<Longrightarrow> length tn \<le> 10 \<and> length ma \<le> 10"
  unfolding developer_sections_def
  by (auto elim!: and_thenE dest: for_top_length)

lemma market_sections_caps:
  "market_sections rp signals = Inr (sol, tk, tr, cs) \<Longrightarrow> length tk \<le> 15 \<and> length cs \<le> 10"
  unfolding market_sections_def
  by (auto elim!: and_thenE dest: for_top_length)

lemma social_sections_caps:
  "social_sections rp signals = Inr (ar, nw, gv) \<Longrightarrow> length ar \<le> 15 \<and> length nw \<le> 10 \<and> length gv \<le> 5"
  unfolding social_sections_def
  by (auto elim!: and_thenE dest: for_top_length)

lemma digest_sectionsE:
  assumes "digest_sections rp signals = Inr s"
  obtains tvl ps ys net tn ma tp sol tk tr cs ar nw gv where
    "onchain_sections rp signals = Inr (tvl, ps, ys, net)"
    "developer_sections rp signals = Inr (tn, ma, tp)"
    "market_sections rp signals = Inr (sol, tk, tr, cs)"
    "social_sections rp signals = Inr (ar, nw, gv)"
    "s = \<lparr>s_tvl = tvl, s_protocols = ps, s_yields = ys, s_network = net,
          s_trending_new = tn, s_most_active = ma, s_topics = tp,
          s_sol = sol, s_tokens = tk, s_trending = tr, s_categories = cs,
          s_articles = ar, s_news = nw, s_governance = gv\<rparr>"
  using assms unfolding digest_sections_def
  by (auto elim!: and_thenE)

lemma map_err_all:
  assumes "map_err f xs = Inr ys" and "\<And>x y. f x = Inr y \<Longrightarrow> P y"
  shows "list_all P ys"
  using assms(1)
proof (induction xs arbitrary: ys)
  case Nil
  then show ?case by simp
next
  case (Cons x xs)
  then obtain y ys' where "f x = Inr y" "map_err f xs = Inr ys'" "ys = y # ys'"
    by (auto elim!: and_thenE)
  with Cons.IH assms(2) show ?case by simp
qed

lemma for_top_all:
  assumes "for_top n d k f = Inr ys" and "\<And>x y. f x = Inr y \<Longrightarrow> P y"
  shows "list_all P ys"
proof -
  from assms(1) obtain items where "map_err f items = Inr ys"
    unfolding for_top_def for_each_def by (auto elim!: and_thenE)
  then show ?thesis using assms(2) by (rule map_err_all)
qed

lemma trending_new_block_shape:
  "trending_new_block rp r = Inr b \<Longrightarrow> length b = 1 \<or> length b = 2"
  unfolding trending_new_block_def
  by (auto elim!: and_thenE split: if_splits)

lemma article_block_shape:
  "article_block rp a = Inr b \<Longrightarrow> length b = 1 \<or> length b = 2"
  unfolding article_block_def
  by (auto elim!: and_thenE split: if_splits)

lemma developer_sections_blocks:
  "developer_sections rp signals = Inr (tn, ma, tp) \<Longrightarrow>
   list_all (\<lambda>b. length b = 1 \<or> length b = 2) tn"
proof -
  assume "developer_sections rp signals = Inr (tn, ma, tp)"
  then obtain github where "for_top 10 github ''trending_new'' (trending_new_block rp) = Inr tn"
    unfolding developer_sections_def by (auto elim!: and_thenE)
  then show ?thesis
    by (rule for_top_all) (rule trending_new_block_shape)
qed

lemma social_sections_blocks:
  "social_sections rp signals = Inr (ar, nw, gv) \<Longrightarrow>
   list_all (\<lambda>b. length b = 1 \<or> length b = 2) ar"
proof -
  assume "social_sections rp signals = Inr (ar, nw, gv)"
  then obtain social where "for_top 15 social ''ecosystem_articles'' (article_block rp) = Inr ar"
    unfolding social_sections_def by (auto elim!: and_thenE)
  then show ?thesis
    by (rule for_top_all) (rule article_block_shape)
qed

lemma build_signal_digestE:
  assumes "build_signal_digest rp signals = Inr digest"
  obtains s where "digest_sections rp signals = Inr s" and "digest = join_with [nl] (assemble s)"
  using assms unfolding build_signal_digest_def digest_parts_def
  by (auto elim!: and_thenE)

text \<open>
  C5. Whatever the bundle holds, the digest renders at most 15 protocols, 10 yield pools,
  10 trending new repositories, 15 market tokens, 15 ecosystem articles and 5 governance
  items. Every rendered entity is one line; a trending repository and an ecosystem article
  are one line followed by at most one more (the topics, the summary).
\<close>

theorem digest_truncation_caps:
  assumes "build_signal_digest rp signals = Inr digest"
  shows "\<exists>s. digest_sections rp signals = Inr s \<and> digest = join_with [nl] (assemble s)
       \<and> length (s_protocols s) \<le> 15 \<and> length (s_yields s) \<le> 10
       \<and> length (s_trending_new s) \<le> 10 \<and> length (s_tokens s) \<le> 15
       \<and> length (s_articles s) \<le> 15 \<and> length (s_governance s) \<le> 5
       \<and> list_all (\<lambda>b. length b = 1 \<or> length b = 2) (s_trending_new s)
       \<and> list_all (\<lambda>b. length b = 1 \<or> length b = 2) (s_articles s)"
proof -
  from assms obtain s where s: "digest_sections rp signals = Inr s"
    and d: "digest = join_with [nl] (assemble s)"
    by (rule build_signal_digestE)
  from s obtain tvl ps ys net tn ma tp sol tk tr cs ar nw gv where
    on: "onchain_sections rp signals = Inr (tvl, ps, ys, net)" and
    dev: "developer_sections rp signals = Inr (tn, ma, tp)" and
    mk: "market_sections rp signals = Inr (sol, tk, tr, cs)" and
    so: "social_sections rp signals = Inr (ar, nw, gv)" and
    eq: "s = \<lparr>s_tvl = tvl, s_protocols = ps, s_yields = ys, s_network = net,
          s_trending_new = tn, s_most_active = ma, s_topics = tp,
          s_sol = sol, s_tokens = tk, s_trending = tr, s_categories = cs,
          s_articles = ar, s_news = nw, s_governance = gv\<rparr>"
    by (rule digest_sectionsE)
  have "length (s_protocols s) \<le> 15 \<and> length (s_yields s) \<le> 10"
    using onchain_sections_caps [OF on] eq by simp
  moreover have "length (s_trending_new s) \<le> 10"
    using developer_sections_caps [OF dev] eq by simp
  moreover have "length (s_tokens s) \<le> 15"
    using market_sections_caps [OF mk] eq by simp
  moreover have "length (s_articles s) \<le> 15 \<and> length (s_governance s) \<le> 5"
    using social_sections_caps [OF so] eq by simp
  moreover have "list_all (\<lambda>b. length b = 1 \<or> length b = 2) (s_trending_new s)"
    using developer_sections_blocks [OF dev] eq by simp
  moreover have "list_all (\<lambda>b. length b = 1 \<or> length b = 2) (s_articles s)"
    using social_sections_blocks [OF so] eq by simp
  ultimately show ?thesis using s d by blast
qed

theorem digest_truncation_caps_witness:
  "\<not> isl (build_signal_digest (\<lambda>v. []) wide_bundle)
   \<and> (\<exists>s. digest_sections (\<lambda>v. []) wide_bundle = Inr s
        \<and> projr (build_signal_digest (\<lambda>v. []) wide_bundle) = join_with [nl] (assemble s)
        \<and> length (s_protocols s) \<le> 15 \<and> length (s_yields s) \<le> 10
        \<and> length (s_trending_new s) \<le> 10 \<and> length (s_tokens s) \<le> 15
        \<and> length (s_articles s) \<le> 15 \<and> length (s_governance s) \<le> 5
        \<and> list_all (\<lambda>b. length b = 1 \<or> length b = 2) (s_trending_new s)
        \<and> list_all (\<lambda>b. length b = 1 \<or> length b = 2) (s_articles s))"
proof -
  have ok: "\<not> isl (build_signal_digest (\<lambda>v. []) wide_bundle)"
    by code_simp
  then have "build_signal_digest (\<lambda>v. []) wide_bundle
             = Inr (projr (build_signal_digest (\<lambda>v. []) wide_bundle))"
    by (cases "build_signal_digest (\<lambda>v. []) wide_bundle") simp_all
  from digest_truncation_caps [OF this] ok show ?thesis by blast
qed

subsection \<open>Lists rendered without a cap\<close>

lemma onchain_sections_tvl:
  "onchain_sections rp signals = Inr (tvl, ps, ys, net) \<Longrightarrow> length tvl = 3"
  unfolding onchain_sections_def by (auto elim!: and_thenE)

lemma market_sections_sol:
  "market_sections rp signals = Inr (sol, tk, tr, cs) \<Longrightarrow> length sol = 2"
  unfolding market_sections_def by (auto elim!: and_thenE)

lemma developer_sections_topics:
  assumes "developer_sections rp signals = Inr (tn, ma, tp)"
    and "map_of signals ''github'' = Some (JObj github)"
    and "map_of github ''ecosystem_topics'' = Some (JList tps)"
  shows "map_err (topic_line rp) tps = Inr tp"
  using assms unfolding developer_sections_def for_each_def
  by (auto elim!: and_thenE)

lemma trending_lines_list:
  assumes "trending_lines rp (JObj market) = Inr tr"
    and "map_of market ''trending'' = Some (JList ts)"
  shows "map_err (trending_line rp) ts = Inr (drop 1 tr)
       \<and> length tr = (if ts = [] then 0 else 1 + length ts)"
proof (cases "ts = []")
  case True
  with assms show ?thesis by (simp add: trending_lines_def)
next
  case False
  with assms obtain ls where "map_err (trending_line rp) ts = Inr ls"
    and "tr = (nl # ''Trending Solana tokens on CoinGecko:'') # ls"
    unfolding trending_lines_def for_each_def by (auto elim!: and_thenE)
  with False show ?thesis using map_err_length [of "trending_line rp" ts ls] by simp
qed

lemma market_sections_trending:
  assumes "market_sections rp signals = Inr (sol, tk, tr, cs)"
    and "map_of signals ''market'' = Some (JObj market)"
    and "map_of market ''trending'' = Some (JList ts)"
  shows "map_err (trending_line rp) ts = Inr (drop 1 tr)
       \<and> length tr = (if ts = [] then 0 else 1 + length ts)"
proof -
  from assms(1,2) have "trending_lines rp (JObj market) = Inr tr"
    unfolding market_sections_def by (auto elim!: and_thenE)
  then show ?thesis using assms(3) by (rule trending_lines_list)
qed

text \<open>
  C10. The trending tokens of the market category and the ecosystem topics of the developer
  category (key \<open>github\<close>) are rendered without a cap: the digest has one line for
  every ecosystem topic and, when the trending list is not empty, a heading and one line
  for every trending token. The number of appended lines is 19 plus the lengths of the
  sections, so it grows with the lengths of these two lists.
\<close>

theorem uncapped_trending_and_topics:
  assumes "build_signal_digest rp signals = Inr digest"
    and "map_of signals ''market'' = Some (JObj market)"
    and "map_of market ''trending'' = Some (JList ts)"
    and "map_of signals ''github'' = Some (JObj github)"
    and "map_of github ''ecosystem_topics'' = Some (JList tps)"
  shows "\<exists>s. digest_sections rp signals = Inr s \<and> digest = join_with [nl] (assemble s)
       \<and> map_err (topic_line rp) tps = Inr (s_topics s)
       \<and> length (s_topics s) = length tps
       \<and> map_err (trending_line rp) ts = Inr (drop 1 (s_trending s))
       \<and> length (s_trending s) = (if ts = [] then 0 else 1 + length ts)
       \<and> length (assemble s) =
           19 + length (s_protocols s) + length (s_yields s) + length (s_network s)
           + length (concat (s_trending_new s)) + length (s_most_active s) + length tps
           + length (s_tokens s) + (if ts = [] then 0 else 1 + length ts)
           + length (s_categories s) + length (concat (s_articles s)) + length (s_news s)
           + length (s_governance s)"
proof -
  from assms(1) obtain s where s: "digest_sections rp signals = Inr s"
    and d: "digest = join_with [nl] (assemble s)"
    by (rule build_signal_digestE)
  from s obtain tvl ps ys net tn ma tp sol tk tr cs ar nw gv where
    on: "onchain_sections rp signals = Inr (tvl, ps, ys, net)" and
    dev: "developer_sections rp signals = Inr (tn, ma, tp)" and
    mk: "market_sections rp signals = Inr (sol, tk, tr, cs)" and
    eq: "s = \<lparr>s_tvl = tvl, s_protocols = ps, s_yields = ys, s_network = net,
          s_trending_new = tn, s_most_active = ma, s_topics = tp,
          s_sol = sol, s_tokens = tk, s_trending = tr, s_categories = cs,
          s_articles = ar, s_news = nw, s_governance = gv\<rparr>"
    by (rule digest_sectionsE)
  have topics: "map_err (topic_line rp) tps = Inr (s_topics s)"
    using developer_sections_topics [OF dev assms(4,5)] eq by simp
  then have ntopics: "length (s_topics s) = length tps"
    by (rule map_err_length)
  have trending: "map_err (trending_line rp) ts = Inr (drop 1 (s_trending s))
       \<and> length (s_trending s) = (if ts = [] then 0 else 1 + length ts)"
    using market_sections_trending [OF mk assms(2,3)] eq by simp
  have "length (s_tvl s) = 3" "length (s_sol s) = 2"
    using onchain_sections_tvl [OF on] market_sections_sol [OF mk] eq by simp_all
  with ntopics trending have "length (assemble s) =
           19 + length (s_protocols s) + length (s_yields s) + length (s_network s)
           + length (concat (s_trending_new s)) + length (s_most_active s) + length tps
           + length (s_tokens s) + (if ts = [] then 0 else 1 + length ts)
           + length (s_categories s) + length (concat (s_articles s)) + length (s_news s)
           + length (s_governance s)"
    by (simp add: assemble_def)
  with s d topics ntopics trending show ?thesis by blast
qed

theorem uncapped_trending_and_topics_witness:
  "\<not> isl (build_signal_digest (\<lambda>v. []) long_bundle)
   \<and> map_of long_bundle ''market'' = Some (JObj long_market)
   \<and> map_of long_market ''trending'' = Some (JList (replicate 50 (JObj
         [(''name'', JStr ''Bonk''), (''symbol'', JStr ''BONK'')])))
   \<and> map_of long_bundle ''github'' = Some (JObj long_github)
   \<and> map_of long_github ''ecosystem_topics'' = Some (JList (replicate 40 (JObj
         [(''topic'', JStr ''defi''), (''repo_count'', JInt 5), (''total_stars'', JInt 1234)])))
   \<and> (\<exists>s. digest_sections (\<lambda>v. []) long_bundle = Inr s
        \<and> length (s_topics s) = 40 \<and> length (s_trending s) = 51)"
proof -
  have ok: "\<not> isl (build_signal_digest (\<lambda>v. []) long_bundle)"
    by code_simp
  then have run: "build_signal_digest (\<lambda>v. []) long_bundle
             = Inr (projr (build_signal_digest (\<lambda>v. []) long_bundle))"
    by (cases "build_signal_digest (\<lambda>v. []) long_bundle") simp_all
  have m: "map_of long_bundle ''market'' = Some (JObj long_market)"
    and g: "map_of long_bundle ''github'' = Some (JObj long_github)"
    by (simp_all add: long_bundle_def)
  have t: "map_of long_market ''trending'' = Some (JList (replicate 50 (JObj
         [(''name'', JStr ''Bonk''), (''symbol'', JStr ''BONK'')])))"
    by (simp add: long_market_def)
  have e: "map_of long_github ''ecosystem_topics'' = Some (JList (replicate 40 (JObj
         [(''topic'', JStr ''defi''), (''repo_count'', JInt 5), (''total_stars'', JInt 1234)])))"
    by (simp add: long_github_def)
  from uncapped_trending_and_topics [OF run m t g e]
  have "\<exists>s. digest_sections (\<lambda>v. []) long_bundle = Inr s
        \<and> length (s_topics s) = 40 \<and> length (s_trending s) = 51"
    by auto
  with ok m t g e show ?thesis by blast
qed

subsection \<open>The signal count\<close>

lemma count_fields_sum:
  "count_fields (map snd kvs) t = t + sequence_lengths kvs"
proof (induction kvs arbitrary: t)
  case Nil
  then show ?case by (simp add: count_fields_def sequence_lengths_def sequence_fields_def)
next
  case (Cons kv kvs)
  obtain k v where kv: "kv = (k, v)" by (cases kv)
  have step: "count_fields (map snd (kv # kvs)) t
              = count_fields (map snd kvs) (case v of JList xs \<Rightarrow> t + int (length xs) | _ \<Rightarrow> t)"
    by (simp add: count_fields_def kv)
  have split: "sequence_lengths ((k, v) # kvs)
               = (case v of JList xs \<Rightarrow> int (length xs) | _ \<Rightarrow> 0) + sequence_lengths kvs"
    by (cases v) (simp_all add: sequence_lengths_def sequence_fields_def)
  show ?case unfolding step Cons.IH unfolding kv split by (cases v) simp_all
qed

lemma count_categories_sum:
  "fold (\<lambda>category total_n.
           case category of JObj kvs \<Rightarrow> count_fields (map snd kvs) total_n | _ \<Rightarrow> total_n)
        (map snd signals) t
   = t + sum_of_sequence_lengths signals"
proof (induction signals arbitrary: t)
  case Nil
  then show ?case by (simp add: sum_of_sequence_lengths_def category_records_def)
next
  case (Cons kv signals)
  obtain k v where kv: "kv = (k, v)" by (cases kv)
  have split: "sum_of_sequence_lengths ((k, v) # signals)
               = (case v of JObj kvs \<Rightarrow> sequence_lengths kvs | _ \<Rightarrow> 0)
                 + sum_of_sequence_lengths signals"
    by (cases v) (simp_all add: sum_of_sequence_lengths_def category_records_def)
  show ?case
    unfolding kv split by (cases v) (simp_all add: Cons.IH count_fields_sum)
qed

lemma count_signals_sum: "count_signals signals = sum_of_sequence_lengths signals"
  unfolding count_signals_def by (simp add: count_categories_sum)

lemma signals_analyzed_fallback:
  "signals_analyzed (fallback_report now digest n) = Inr (JInt n)"
  by (simp add: signals_analyzed_def fallback_report_def)

lemma signals_analyzed_accepted:
  assumes "accept_report result n = Inr report"
  shows "signals_analyzed report = Inr (JInt n)"
proof -
  from assms obtain meta result1 meta1 where
    m1: "set_item meta ''signals_analyzed'' (JInt n) = Inr meta1" and
    r2: "set_item result1 ''meta'' meta1 = Inr report"
    unfolding accept_report_def by (auto elim!: and_thenE)
  from m1 obtain mkvs where meta1: "meta1 = JObj (AList.update ''signals_analyzed'' (JInt n) mkvs)"
    by (cases meta) auto
  from r2 obtain rkvs where report: "report = JObj (AList.update ''meta'' meta1 rkvs)"
    by (cases result1) auto
  show ?thesis
    unfolding signals_analyzed_def report meta1
    by (simp add: update_conv')
qed

text \<open>
  C2. The \<open>signals_analyzed\<close> value of every report \<open>analyze\<close> returns is the sum of the
  lengths of the list-valued fields of the category records of the bundle, whatever the
  reasoning service answered: in an accepted report the count the service gave is
  overwritten.
\<close>

theorem signals_analyzed_is_sum_of_sequence_lengths:
  assumes "analyze rp env signals = Inr report"
  shows "signals_analyzed report = Inr (JInt (sum_of_sequence_lengths signals))"
proof -
  from assms obtain digest result accepted where
    fin: "(if accepted then accept_report result (count_signals signals)
           else Inr (fallback_report (now_iso env) digest (count_signals signals))) = Inr report"
    unfolding analyze_def by (auto elim!: and_thenE)
  show ?thesis
  proof (cases accepted)
    case True
    with fin have "accept_report result (count_signals signals) = Inr report" by simp
    then show ?thesis by (simp add: signals_analyzed_accepted count_signals_sum)
  next
    case False
    with fin have "report = fallback_report (now_iso env) digest (count_signals signals)" by simp
    then show ?thesis by (simp add: signals_analyzed_fallback count_signals_sum)
  qed
qed

theorem signals_analyzed_is_sum_of_sequence_lengths_witness:
  "\<not> isl (analyze (\<lambda>v. []) env_accepting sample_bundle)
   \<and> signals_analyzed service_report = Inr (JInt 999)
   \<and> sum_of_sequence_lengths sample_bundle = 5
   \<and> signals_analyzed (projr (analyze (\<lambda>v. []) env_accepting sample_bundle)) = Inr (JInt 5)
   \<and> subscript_key (projr (analyze (\<lambda>v. []) env_accepting sample_bundle)) ''narratives''
       = Inr (JList [JObj [(''id'', JInt 1)], JObj [(''id'', JInt 2)]])"
proof -
  have ok: "\<not> isl (analyze (\<lambda>v. []) env_accepting sample_bundle)"
    by code_simp
  then have run: "analyze (\<lambda>v. []) env_accepting sample_bundle
             = Inr (projr (analyze (\<lambda>v. []) env_accepting sample_bundle))"
    by (cases "analyze (\<lambda>v. []) env_accepting sample_bundle") simp_all
  have given: "signals_analyzed service_report = Inr (JInt 999)"
    by code_simp
  have five: "sum_of_sequence_lengths sample_bundle = 5"
    by code_simp
  have narr: "subscript_key (projr (analyze (\<lambda>v. []) env_accepting sample_bundle)) ''narratives''
       = Inr (JList [JObj [(''id'', JInt 1)], JObj [(''id'', JInt 2)]])"
    by code_simp
  from signals_analyzed_is_sum_of_sequence_lengths [OF run] ok given five narr
  show ?thesis by simp
qed

subsection \<open>Where the digest raises\<close>

lemma digest_of_empty_bundle: "\<not> isl (build_signal_digest rp [])"
  by code_simp

lemma digest_not_empty:
  assumes "build_signal_digest rp signals = Inr digest"
  shows "digest \<noteq> []"
proof -
  from assms obtain s where "digest = join_with [nl] (assemble s)"
    by (rule build_signal_digestE)
  moreover have "join_with [nl] (assemble s) \<noteq> []"
    by (cases "tl (assemble s)") (simp_all add: assemble_def)
  ultimately show ?thesis by simp
qed

text \<open>
  C3. The digest is a function of the bundle alone, but not a total one: on the market
  record that the market collector builds for a token without a price, formatting the
  price raises TypeError.
\<close>

theorem digest_raises_on_unpriced_token:
  "build_signal_digest rp unpriced_bundle = Inl TypeError"
  by code_simp

subsection \<open>The analyzer without a usable answer\<close>

lemma analyze_with_claude_unavailable:
  assumes "\<not> anthropic_installed env \<or> api_key env = None \<or> api_key env = Some []"
  shows "analyze_with_claude rp env signals = Inr (JObj [])"
  using assms by (auto simp: analyze_with_claude_def)

text \<open>Without the client package or the credential, \<open>analyze\<close> returns the fallback report
  around the digest, when the digest can be built.\<close>

lemma analyze_unavailable:
  assumes "\<not> anthropic_installed env \<or> api_key env = None \<or> api_key env = Some []"
    and "build_signal_digest rp signals = Inr digest"
  shows "analyze rp env signals
         = Inr (fallback_report (now_iso env) digest (count_signals signals))"
  using assms(2) analyze_with_claude_unavailable [OF assms(1), of rp signals]
  by (simp add: analyze_def has_narratives_def)

lemma fallback_report_fields:
  "subscript_key (fallback_report now digest n) ''narratives'' = Inr (JList [])"
  "subscript_key (fallback_report now digest n) ''raw_digest'' = Inr (JStr digest)"
  "and_then (subscript_key (fallback_report now digest n) ''meta'')
     (\<lambda>meta. subscript_key meta ''status'') = Inr (JStr ''raw_signals_only'')"
  "subscript_key (fallback_report now digest n) ''raw_response'' = Inl KeyError"
  by (simp_all add: fallback_report_def)

text \<open>
  C6. \<open>analyze\<close> builds the digest before it looks for the credential, so without the
  credential it returns the fallback report only when the digest can be built: on the
  bundle with the token without a price it raises TypeError.
\<close>

theorem analyze_raises_on_unpriced_token:
  "analyze rp env_no_key unpriced_bundle = Inl TypeError"
  by code_simp

text \<open>
  C1. When the answer of the service cannot be parsed, \<open>analyze_with_claude\<close> returns a
  dict that holds the text it tried to parse under \<open>raw_response\<close>, and \<open>analyze\<close> drops
  it: the report is the fallback report around the digest, with no \<open>raw_response\<close>
  entry, the same report as without the credential.
\<close>

theorem parse_failure_returns_digest_fallback:
  assumes "anthropic_installed env" and "api_key env = Some key" and "key \<noteq> []"
    and "build_signal_digest rp signals = Inr digest"
    and "create_message env (user_message (today env) digest) = Inr response"
    and "extract_json response = Inr text"
    and "json_loads env text = None"
  shows "analyze_with_claude rp env signals = Inr (JObj [(''raw_response'', JStr text)])
       \<and> analyze rp env signals
           = Inr (fallback_report (now_iso env) digest (count_signals signals))
       \<and> subscript_key (fallback_report (now_iso env) digest (count_signals signals))
             ''raw_response'' = Inl KeyError
       \<and> analyze rp env signals = analyze rp (env\<lparr>api_key := None\<rparr>) signals"
proof -
  have awc: "analyze_with_claude rp env signals = Inr (JObj [(''raw_response'', JStr text)])"
    using assms by (simp add: analyze_with_claude_def)
  have an: "analyze rp env signals
            = Inr (fallback_report (now_iso env) digest (count_signals signals))"
    using assms(4) awc by (simp add: analyze_def has_narratives_def)
  have "analyze rp (env\<lparr>api_key := None\<rparr>) signals
        = Inr (fallback_report (now_iso (env\<lparr>api_key := None\<rparr>)) digest (count_signals signals))"
    by (rule analyze_unavailable) (simp_all add: assms(4))
  with awc an show ?thesis
    by (simp add: fallback_report_fields)
qed

theorem parse_failure_returns_digest_fallback_witness:
  "anthropic_installed env_unparseable \<and> api_key env_unparseable = Some ''sk-test''
   \<and> ''sk-test'' \<noteq> []
   \<and> \<not> isl (build_signal_digest (\<lambda>v. []) [])
   \<and> create_message env_unparseable
         (user_message (today env_unparseable) (projr (build_signal_digest (\<lambda>v. []) [])))
       = Inr unparseable_response
   \<and> extract_json unparseable_response = Inr ''{narratives: [''
   \<and> json_loads env_unparseable ''{narratives: ['' = None
   \<and> analyze_with_claude (\<lambda>v. []) env_unparseable [] = Inr (JObj [(''raw_response'', JStr ''{narratives: ['')])
   \<and> analyze (\<lambda>v. []) env_unparseable []
       = Inr (fallback_report ''2026-02-14T00:00:00+00:00''
                (projr (build_signal_digest (\<lambda>v. []) [])) 0)
   \<and> analyze (\<lambda>v. []) env_unparseable []
       = analyze (\<lambda>v. []) (env_unparseable\<lparr>api_key := None\<rparr>) []"
proof -
  have inst: "anthropic_installed env_unparseable"
    and key: "api_key env_unparseable = Some ''sk-test''"
    and now: "now_iso env_unparseable = ''2026-02-14T00:00:00+00:00''"
    by (simp_all add: env_unparseable_def)
  have ne: "''sk-test'' \<noteq> []" by simp
  have ok: "\<not> isl (build_signal_digest (\<lambda>v. []) [])"
    by (rule digest_of_empty_bundle)
  then have dig: "build_signal_digest (\<lambda>v. []) []
             = Inr (projr (build_signal_digest (\<lambda>v. []) []))"
    by (cases "build_signal_digest (\<lambda>v. []) []") simp_all
  have resp: "create_message env_unparseable
         (user_message (today env_unparseable) (projr (build_signal_digest (\<lambda>v. []) [])))
       = Inr unparseable_response"
    by (simp add: env_unparseable_def)
  have ext: "extract_json unparseable_response = Inr ''{narratives: [''"
    by code_simp
  have loads: "json_loads env_unparseable ''{narratives: ['' = None"
    by (simp add: env_unparseable_def)
  have cnt: "count_signals [] = 0"
    by (simp add: count_signals_def)
  note r = parse_failure_returns_digest_fallback [OF inst key ne dig resp ext loads,
      unfolded now cnt]
  from r inst key ne ok resp ext loads show ?thesis by blast
qed

subsection \<open>The collected bundle\<close>

lemma collect_allE:
  assumes "collect_all oc gh mk so now persist = Inr signals"
  obtains a b c d where "oc = Inr a" "gh = Inr b" "mk = Inr c" "so = Inr d"
    and "signals = [(''onchain'', a), (''github'', b), (''market'', c), (''social'', d),
                    (''collected_at'', JStr now)]"
  using assms unfolding collect_all_def
  by (auto elim!: and_thenE simp: Let_def split: option.splits)

text \<open>The count of \<open>analyze\<close> on a collected bundle is the sum over its four records.\<close>

lemma collected_bundle_count:
  assumes "collect_all (Inr (JObj a)) (Inr (JObj b)) (Inr (JObj c)) (Inr (JObj d)) now persist
           = Inr signals"
  shows "sum_of_sequence_lengths signals
         = sequence_lengths a + sequence_lengths b + sequence_lengths c + sequence_lengths d"
proof -
  from assms have "signals = [(''onchain'', JObj a), (''github'', JObj b), (''market'', JObj c),
                              (''social'', JObj d), (''collected_at'', JStr now)]"
    by (elim collect_allE) auto
  then show ?thesis
    by (simp add: sum_of_sequence_lengths_def category_records_def)
qed

theorem collected_bundle_keys_counterexample:
  "\<not> isl (collect_all (Inr (JObj [])) (Inr (JObj [])) (Inr (JObj [])) (Inr (JObj []))
             ''2026-02-14T00:00:00+00:00'' writes_succeed)
   \<and> ''developer'' \<notin> set (map fst (projr (collect_all (Inr (JObj [])) (Inr (JObj []))
             (Inr (JObj [])) (Inr (JObj [])) ''2026-02-14T00:00:00+00:00'' writes_succeed)))
   \<and> ''github'' \<in> set (map fst (projr (collect_all (Inr (JObj [])) (Inr (JObj []))
             (Inr (JObj [])) (Inr (JObj [])) ''2026-02-14T00:00:00+00:00'' writes_succeed)))
   \<and> ''collected_at'' \<in> set (map fst (projr (collect_all (Inr (JObj [])) (Inr (JObj []))
             (Inr (JObj [])) (Inr (JObj [])) ''2026-02-14T00:00:00+00:00'' writes_succeed)))"
  by (simp add: collect_all_def writes_succeed_def)

text \<open>
  C7 (amended). The bundle \<open>collect_all\<close> assembles has the keys \<open>onchain\<close>, \<open>github\<close>,
  \<open>market\<close>, \<open>social\<close> and \<open>collected_at\<close>, in this order: the records of the on-chain,
  developer, market and social collectors, and the timestamp. The developer record is
  under \<open>github\<close>; there is no key \<open>developer\<close>.
\<close>

theorem collected_bundle_keys:
  assumes "collect_all oc gh mk so now persist = Inr signals"
  shows "(\<exists>a b c d. oc = Inr a \<and> gh = Inr b \<and> mk = Inr c \<and> so = Inr d
           \<and> signals = [(''onchain'', a), (''github'', b), (''market'', c), (''social'', d),
                          (''collected_at'', JStr now)])
       \<and> map fst signals = [''onchain'', ''github'', ''market'', ''social'', ''collected_at'']
       \<and> map_of signals ''developer'' = None"
  using assms by (elim collect_allE) simp

theorem collected_bundle_keys_witness:
  "collect_all (Inr (JObj [(''yields'', JList [])])) (Inr (JObj [(''trending_new'', JList [])]))
     (Inr (JObj [(''trending'', JList [])])) (Inr (JObj [(''governance'', JList [])]))
     ''2026-02-14T00:00:00+00:00'' writes_succeed
   = Inr [(''onchain'', JObj [(''yields'', JList [])]),
          (''github'', JObj [(''trending_new'', JList [])]),
          (''market'', JObj [(''trending'', JList [])]),
          (''social'', JObj [(''governance'', JList [])]),
          (''collected_at'', JStr ''2026-02-14T00:00:00+00:00'')]
   \<and> map fst [(''onchain'', JObj [(''yields'', JList [])]),
          (''github'', JObj [(''trending_new'', JList [])]),
          (''market'', JObj [(''trending'', JList [])]),
          (''social'', JObj [(''governance'', JList [])]),
          (''collected_at'', JStr ''2026-02-14T00:00:00+00:00'')]
       = [''onchain'', ''github'', ''market'', ''social'', ''collected_at'']"
proof -
  have run: "collect_all (Inr (JObj [(''yields'', JList [])]))
     (Inr (JObj [(''trending_new'', JList [])]))
     (Inr (JObj [(''trending'', JList [])])) (Inr (JObj [(''governance'', JList [])]))
     ''2026-02-14T00:00:00+00:00'' writes_succeed
   = Inr [(''onchain'', JObj [(''yields'', JList [])]),
          (''github'', JObj [(''trending_new'', JList [])]),
          (''market'', JObj [(''trending'', JList [])]),
          (''social'', JObj [(''governance'', JList [])]),
          (''collected_at'', JStr ''2026-02-14T00:00:00+00:00'')]"
    by (simp add: collect_all_def writes_succeed_def)
  from collected_bundle_keys [OF run] run show ?thesis by blast
qed

subsection \<open>The highlights\<close>

lemma recent_news_lists:
  assumes "map_of signals ''social'' = Some (JObj social)"
    and "map_of social ''ecosystem_articles'' = Some (JList eco)"
    and "map_of social ''news_articles'' = Some (JList news)"
  shows "recent_news signals = Inr (JList (take 5 eco @ take 5 news))"
  using assms by (simp add: recent_news_def get2_def)

lemma generate_site_recent_news:
  assumes "generate_site analysis signals mkdir now persist = Inr doc"
  shows "and_then (subscript_key doc ''highlights'') (\<lambda>h. subscript_key h ''recent_news'')
         = recent_news signals"
proof -
  from assms obtain h where h: "highlights signals = Inr h"
    and doc: "doc = JObj [(''generated_at'', JStr now), (''analysis'', analysis),
                          (''highlights'', h)]"
    unfolding generate_site_def
    by (auto elim!: and_thenE simp: Let_def split: option.splits)
  from h obtain news where "recent_news signals = Inr news"
    and "subscript_key h ''recent_news'' = Inr news"
    unfolding highlights_def by (auto elim!: and_thenE)
  with doc show ?thesis by simp
qed

text \<open>
  C8. When the social record holds a list of ecosystem articles and a list of news
  articles, the \<open>recent_news\<close> highlight is the first five ecosystem articles followed by
  the first five news articles, each in its own order: at most ten articles. It is the
  \<open>recent_news\<close> entry of the highlights in the document \<open>generate_site\<close> writes.
\<close>

theorem recent_news_highlight:
  assumes "map_of signals ''social'' = Some (JObj social)"
    and "map_of social ''ecosystem_articles'' = Some (JList eco)"
    and "map_of social ''news_articles'' = Some (JList news)"
    and "generate_site analysis signals mkdir now persist = Inr doc"
  shows "recent_news signals = Inr (JList (take 5 eco @ take 5 news))
       \<and> and_then (subscript_key doc ''highlights'') (\<lambda>h. subscript_key h ''recent_news'')
           = Inr (JList (take 5 eco @ take 5 news))
       \<and> length (take 5 eco @ take 5 news) \<le> 10"
  using recent_news_lists [OF assms(1-3)] generate_site_recent_news [OF assms(4)]
  by simp

theorem recent_news_highlight_witness:
  "map_of six_and_two ''social'' = Some (JObj
         [(''ecosystem_articles'',
             JList [JStr ''A'', JStr ''B'', JStr ''C'', JStr ''D'', JStr ''E'', JStr ''F'']),
          (''news_articles'', JList [JStr ''X'', JStr ''Y''])])
   \<and> \<not> isl (generate_site JNull six_and_two None ''2026-02-14T00:00:00+00:00'' writes_succeed)
   \<and> recent_news six_and_two
       = Inr (JList [JStr ''A'', JStr ''B'', JStr ''C'', JStr ''D'', JStr ''E'',
                     JStr ''X'', JStr ''Y''])
   \<and> and_then (subscript_key
                  (projr (generate_site JNull six_and_two None ''2026-02-14T00:00:00+00:00''
                            writes_succeed)) ''highlights'')
         (\<lambda>h. subscript_key h ''recent_news'')
       = Inr (JList [JStr ''A'', JStr ''B'', JStr ''C'', JStr ''D'', JStr ''E'',
                     JStr ''X'', JStr ''Y''])"
proof -
  have soc: "map_of six_and_two ''social'' = Some (JObj
         [(''ecosystem_articles'',
             JList [JStr ''A'', JStr ''B'', JStr ''C'', JStr ''D'', JStr ''E'', JStr ''F'']),
          (''news_articles'', JList [JStr ''X'', JStr ''Y''])])"
    by (simp add: six_and_two_def)
  have eco: "map_of [(''ecosystem_articles'',
             JList [JStr ''A'', JStr ''B'', JStr ''C'', JStr ''D'', JStr ''E'', JStr ''F'']),
          (''news_articles'', JList [JStr ''X'', JStr ''Y''])] ''ecosystem_articles''
        = Some (JList [JStr ''A'', JStr ''B'', JStr ''C'', JStr ''D'', JStr ''E'', JStr ''F''])"
    by simp
  have news: "map_of [(''ecosystem_articles'',
             JList [JStr ''A'', JStr ''B'', JStr ''C'', JStr ''D'', JStr ''E'', JStr ''F'']),
          (''news_articles'', JList [JStr ''X'', JStr ''Y''])] ''news_articles''
        = Some (JList [JStr ''X'', JStr ''Y''])"
    by simp
  have ok: "\<not> isl (generate_site JNull six_and_two None ''2026-02-14T00:00:00+00:00''
                    writes_succeed)"
    by code_simp
  then have run: "generate_site JNull six_and_two None ''2026-02-14T00:00:00+00:00''
                    writes_succeed
        = Inr (projr (generate_site JNull six_and_two None ''2026-02-14T00:00:00+00:00''
                        writes_succeed))"
    by (cases "generate_site JNull six_and_two None ''2026-02-14T00:00:00+00:00''
                 writes_succeed") simp_all
  from recent_news_highlight [OF soc eco news run] soc ok show ?thesis by simp
qed

subsection \<open>The TVL record\<close>

lemma tvl_history_on_failure:
  "get_solana_tvl_history Failed = Inr (JObj [(''error'', JStr ''Failed to fetch TVL'')])"
  by (simp add: get_solana_tvl_history_def)

text \<open>
  C9. A TVL history with 5,000,000,000 today and 4,500,000,000 at \<open>recent[-14]\<close> gives the
  record a 14-day change of 11.11 (the float nearest to it), and the digest of a bundle
  with this on-chain record reads \<open>+11.1%\<close> on its 14-day line, below
  \<open>Solana TVL: $5,000,000,000\<close>.
\<close>

theorem tvl_change_line:
  "and_then (get_solana_tvl_history (Response tvl_response))
     (\<lambda>tvl. subscript_key tvl ''change_14d_pct'')
   = Inr (JFloat (Finite False (781796747813847 / 70368744177664)))
   \<and> to_binary64 (1111 / 100) = Some (781796747813847 / 70368744177664)
   \<and> and_then (onchain_collect (Response tvl_response) (Inr (JList [])) (Inr (JList []))
                 (Inr (JObj [])) (Inr (JObj [])) ''2026-02-14T00:00:00+00:00'')
       (\<lambda>onchain. and_then (digest_parts rp [(''onchain'', onchain)])
          (\<lambda>parts. Inr (take 3 parts)))
     = Inr [''## ONCHAIN SIGNALS'', ''Solana TVL: $5,000,000,000'', ''  14d change: +11.1%'']"
  by code_simp

text \<open>
  C4. The request is guarded, what is done with the answer is not: on a history whose
  TVL of 14 days ago is zero \<open>get_solana_tvl_history\<close> raises ZeroDivisionError, on an
  error object it raises too, and \<open>collect\<close> of the on-chain adapter raises with it,
  whatever the other getters return.
\<close>

theorem onchain_collect_raises:
  "get_solana_tvl_history (Response zero_tvl_response) = Inl ZeroDivisionError
   \<and> onchain_collect (Response zero_tvl_response) protocols yields stablecoins network now
       = Inl ZeroDivisionError
   \<and> isl (get_solana_tvl_history (Response error_body_response))
   \<and> isl (onchain_collect (Response error_body_response) protocols yields stablecoins
             network now)"
  by code_simp

end
